theory Spec2Isabelle
  imports Main
begin

section \<open>Data model\<close>

text \<open>
  The class \<open>MicroserviceORM\<close> wraps one typeorm connection for a koa-microservice host.
  Everything typeorm and the host do is outside the class; the model takes it as a
  parameter (the record \<open>backend\<close> below) and every method returns, next to its result
  and the updated object, the list of outside calls it made, in order.
\<close>

text \<open>A thrown \<open>Error\<close>; the catch block of \<open>connect\<close> reads \<open>err.message\<close>.\<close>

datatype error = Error (message: string)

text \<open>\<open>type: "mysql" | "postgres"\<close>.\<close>

datatype db_type = mysql | postgres

text \<open>\<open>slaves?: string | string[]\<close>.\<close>

datatype slaves_value = SlaveString string | SlaveArray "string list"

record MicroserviceORMConfig =
  cfg_type :: db_type
  cfg_master :: string
  cfg_slaves :: "slaves_value option"
  cfg_port :: "int option"
  cfg_database :: "string option"
  cfg_username :: "string option"
  cfg_password :: "string option"

text \<open>
  typeorm's \<open>ConnectionOptions\<close>: the class reads only \<open>name\<close>; \<open>ident\<close> stands for the
  rest of the object, which is handed on to \<open>createConnection\<close> unread.
\<close>

record ConnectionOptions =
  name :: "string option"
  ident :: nat

record MicroserviceORMOptions =
  opts_connectionName :: "string option"
  opts_connectionOptions :: "ConnectionOptions option"
  opts_connectionRequired :: "bool option"
  opts_unhealthyWithoutConnection :: "bool option"
  opts_connectionAttemptInterval :: "int option"
  opts_healthCheckQuery :: "string option"
  opts_healthCheckInterval :: "int option"
  opts_config :: "MicroserviceORMConfig option"

text \<open>
  typeorm's \<open>Connection\<close> object: \<open>handle\<close> tells two objects apart, \<open>isConnected\<close> is the
  flag the class reads. \<open>connect()\<close> and \<open>close()\<close> of the object change the flag in place;
  the model stores the changed object back.
\<close>

record Connection =
  handle :: nat
  isConnected :: bool

text \<open>The host: the hooks registered with \<open>onStartup\<close>, \<open>onShutdown\<close>, \<open>addHealthCheck\<close>.\<close>

datatype hook = connect_hook | close_hook | healthCheck_hook

record Microservice =
  startupHooks :: "hook list"
  shutdownHooks :: "hook list"
  healthChecks :: "hook list"

text \<open>
  The fields of the class. The private fields \<open>_lastConnectionAttempt\<close>,
  \<open>_lastHealthCheck\<close>, \<open>_lastHealthCheckResult\<close>, \<open>_connectionOptions\<close> and
  \<open>_connectionName\<close> lose their underscore; a \<open>Date\<close> is its \<open>getTime()\<close> in milliseconds.
\<close>

record MicroserviceORM =
  app :: "Microservice option"
  connection :: "Connection option"
  config :: "MicroserviceORMConfig option"
  connectionRequired :: bool
  unhealthyWithoutConnection :: bool
  connectionAttemptInterval :: int
  healthCheckQuery :: string
  healthCheckInterval :: int
  lastConnectionAttempt :: "int option"
  lastHealthCheck :: "int option"
  lastHealthCheckResult :: "bool option"
  connectionOptions :: "ConnectionOptions option"
  connectionName :: "string option"

section \<open>JavaScript truthiness\<close>

text \<open>
  \<open>undefined\<close>, \<open>0\<close> and \<open>""\<close> are falsy; \<open>a || b\<close> is \<open>a\<close> when \<open>a\<close> is truthy and \<open>b\<close>
  otherwise, whatever \<open>b\<close> is. Objects, arrays (also the empty one) and the two type
  names are truthy.
\<close>

definition truthy_number :: "int option \<Rightarrow> bool" where
  "truthy_number v = (case v of None \<Rightarrow> False | Some n \<Rightarrow> n \<noteq> 0)"

definition truthy_string :: "string option \<Rightarrow> bool" where
  "truthy_string v = (case v of None \<Rightarrow> False | Some s \<Rightarrow> s \<noteq> [])"

definition truthy_slaves :: "slaves_value option \<Rightarrow> bool" where
  "truthy_slaves v =
     (case v of None \<Rightarrow> False | Some (SlaveString s) \<Rightarrow> s \<noteq> [] | Some (SlaveArray xs) \<Rightarrow> True)"

definition or_number :: "int option \<Rightarrow> int option \<Rightarrow> int option" where
  "or_number a b = (if truthy_number a then a else b)"

definition or_string :: "string option \<Rightarrow> string option \<Rightarrow> string option" where
  "or_string a b = (if truthy_string a then a else b)"

definition or_slaves :: "slaves_value option \<Rightarrow> slaves_value option \<Rightarrow> slaves_value option" where
  "or_slaves a b = (if truthy_slaves a then a else b)"

text \<open>\<open>c?.f\<close> for an optional field \<open>f\<close> of an optional object \<open>c\<close>.\<close>

definition opt_chain :: "'a option \<Rightarrow> ('a \<Rightarrow> 'b option) \<Rightarrow> 'b option" where
  "opt_chain c f = (case c of None \<Rightarrow> None | Some x \<Rightarrow> f x)"

section \<open>Construction\<close>

text \<open>The field initialisers of the class, before the constructor body runs.\<close>

definition field_initialisers :: MicroserviceORM where
  "field_initialisers =
     \<lparr> app = None, connection = None, config = None,
       connectionRequired = True, unhealthyWithoutConnection = True,
       connectionAttemptInterval = 15000, healthCheckQuery = ''SELECT 1'',
       healthCheckInterval = 15000,
       lastConnectionAttempt = None, lastHealthCheck = None, lastHealthCheckResult = None,
       connectionOptions = None, connectionName = None \<rparr>"

definition bindTo :: "Microservice \<Rightarrow> MicroserviceORM \<Rightarrow> MicroserviceORM" where
  "bindTo a s =
     s\<lparr> app := Some (a\<lparr> startupHooks := startupHooks a @ [connect_hook],
                       shutdownHooks := shutdownHooks a @ [close_hook],
                       healthChecks := healthChecks a @ [healthCheck_hook] \<rparr>) \<rparr>"

text \<open>
  The constructor, statement by statement. \<open>opts.healthCheckInterval\<close> is declared in
  the options interface and read nowhere.
\<close>

definition constructor :: "Microservice option \<Rightarrow> MicroserviceORMOptions option \<Rightarrow> MicroserviceORM" where
  "constructor a opts =
     (let s0 = field_initialisers\<lparr> connection := None \<rparr>;
          s1 = s0\<lparr> connectionName := opt_chain opts opts_connectionName \<rparr>;
          s2 = (case opt_chain opts opts_connectionOptions of
                  Some co \<Rightarrow> s1\<lparr> connectionOptions := Some co \<rparr>
                | None \<Rightarrow> s1);
          s3 = (case opt_chain opts opts_connectionRequired of
                  Some b \<Rightarrow> s2\<lparr> connectionRequired := b \<rparr>
                | None \<Rightarrow> s2);
          s4 = (case opt_chain opts opts_unhealthyWithoutConnection of
                  Some b \<Rightarrow> s3\<lparr> unhealthyWithoutConnection := b \<rparr>
                | None \<Rightarrow> s3);
          s5 = (case opt_chain opts opts_connectionAttemptInterval of
                  Some n \<Rightarrow> if n \<noteq> 0 then s4\<lparr> connectionAttemptInterval := n \<rparr> else s4
                | None \<Rightarrow> s4);
          s6 = (case opt_chain opts opts_healthCheckQuery of
                  Some q \<Rightarrow> if q \<noteq> [] then s5\<lparr> healthCheckQuery := q \<rparr> else s5
                | None \<Rightarrow> s5);
          s7 = (case opt_chain opts opts_config of
                  Some c \<Rightarrow> s6\<lparr> config := Some c \<rparr>
                | None \<Rightarrow> s6)
      in case a of Some m \<Rightarrow> bindTo m s7 | None \<Rightarrow> s7)"

definition setConnectionOptions :: "ConnectionOptions \<Rightarrow> MicroserviceORM \<Rightarrow> ConnectionOptions \<times> MicroserviceORM" where
  "setConnectionOptions options s =
     (let s1 = (if truthy_string (name options) then s\<lparr> connectionName := name options \<rparr> else s)
      in (options, s1\<lparr> connectionOptions := Some options \<rparr>))"

section \<open>The options resolver\<close>

record cli_dirs =
  entitiesDir :: string
  migrationsDir :: string
  subscribersDir :: string

text \<open>The local \<open>output\<close> of \<open>buildConnectionOptions\<close>.\<close>

record output_fields =
  cli :: cli_dirs
  entities :: "string list"
  subscribers :: "string list"
  migrations :: "string list"
  type :: db_type

text \<open>The local \<open>details\<close>; an endpoint is \<open>{host: h, ...details}\<close>.\<close>

record details =
  port :: int
  username :: "string option"
  password :: "string option"
  database :: "string option"

record endpoint = details +
  host :: string

text \<open>
  The two shapes the method returns: \<open>{host: master, ...output, ...details}\<close>, and
  \<open>{...output, replication: {master: {host: master, ...details}, slaves: [...]}}\<close>.
\<close>

datatype MicroserviceORMConnectionOptions =
    SingleServer output_fields endpoint
  | Replication output_fields (replication_master: endpoint) (replication_slaves: "endpoint list")

definition with_host :: "string \<Rightarrow> details \<Rightarrow> endpoint" where
  "with_host h d = \<lparr> port = port d, username = username d, password = password d,
                     database = database d, host = h \<rparr>"

definition build_output :: "MicroserviceORMConfig option \<Rightarrow> MicroserviceORMConfig option \<Rightarrow> output_fields" where
  "build_output cfg stored =
     \<lparr> cli = \<lparr> entitiesDir = ''./src/entity'', migrationsDir = ''./src/migration'',
               subscribersDir = ''./src/subscriber'' \<rparr>,
       entities = [''./build/entity/*.js'', ''./build/entity/**/*.js''],
       subscribers = [''./build/subscriber/*.js'', ''./build/subscriber/**/*.js''],
       migrations = [''./build/migration/*.js''],
       type = (case cfg of Some c \<Rightarrow> cfg_type c
               | None \<Rightarrow> (case stored of Some c \<Rightarrow> cfg_type c | None \<Rightarrow> mysql)) \<rparr>"

definition build_details :: "MicroserviceORMConfig option \<Rightarrow> MicroserviceORMConfig option \<Rightarrow> details" where
  "build_details cfg stored =
     \<lparr> port = (case or_number (opt_chain cfg cfg_port) (opt_chain stored cfg_port) of
                 Some n \<Rightarrow> if n \<noteq> 0 then n else 3306
               | None \<Rightarrow> 3306),
       username = or_string (opt_chain cfg cfg_username) (opt_chain stored cfg_username),
       password = or_string (opt_chain cfg cfg_password) (opt_chain stored cfg_password),
       database = or_string (opt_chain cfg cfg_database) (opt_chain stored cfg_database) \<rparr>"

definition build_master :: "MicroserviceORMConfig option \<Rightarrow> MicroserviceORMConfig option \<Rightarrow> string" where
  "build_master cfg stored =
     (case or_string (map_option cfg_master cfg) (map_option cfg_master stored) of
        Some m \<Rightarrow> if m \<noteq> [] then m else ''127.0.0.1''
      | None \<Rightarrow> ''127.0.0.1'')"

text \<open>
  \<open>config?.slaves || this.config?.slaves || []\<close>, then the \<open>typeof slaves === "string"\<close>
  test that wraps a string into an array.
\<close>

definition build_slaves :: "MicroserviceORMConfig option \<Rightarrow> MicroserviceORMConfig option \<Rightarrow> string list" where
  "build_slaves cfg stored =
     (case or_slaves (opt_chain cfg cfg_slaves) (opt_chain stored cfg_slaves) of
        None \<Rightarrow> []
      | Some (SlaveString s) \<Rightarrow> if s \<noteq> [] then [s] else []
      | Some (SlaveArray xs) \<Rightarrow> xs)"

text \<open>The \<open>for (slave of slaves)\<close> loop pushing one endpoint per replica.\<close>

fun push_slaves :: "details \<Rightarrow> string list \<Rightarrow> endpoint list \<Rightarrow> endpoint list" where
  "push_slaves d [] replicationSlaves = replicationSlaves"
| "push_slaves d (slave # rest) replicationSlaves =
     push_slaves d rest (replicationSlaves @ [with_host slave d])"

definition buildConnectionOptions ::
  "MicroserviceORMConfig option \<Rightarrow> MicroserviceORM \<Rightarrow> MicroserviceORMConnectionOptions" where
  "buildConnectionOptions cfg s =
     (let output = build_output cfg (config s);
          details = build_details cfg (config s);
          master = build_master cfg (config s);
          slaves = build_slaves cfg (config s)
      in if length slaves = 0 then SingleServer output (with_host master details)
         else Replication output (with_host master details) (push_slaves details slaves []))"

section \<open>The outside world\<close>

text \<open>The three ways \<open>createConnection\<close> is called: with options, with a name, with nothing.\<close>

datatype createConnection_arg = WithOptions ConnectionOptions | WithName string | NoArgument

text \<open>The calls that leave the class, as they are recorded in a method's call list.\<close>

datatype event =
    AppInfo string string
  | AppError string string string
  | CreateConnection createConnection_arg
  | ConnectionConnect nat
  | ConnectionClose nat
  | ConnectionQuery nat string
  | GetConnection "string option"
  | GetConnectionOptions "string option"

text \<open>
  What typeorm and the clock answer during one method call. A call that throws is
  \<open>Inl\<close>. \<open>connection_connect\<close> and \<open>connection_close\<close> give the connection object as the
  call leaves it; a call that throws leaves the object as it was. \<open>connection_query\<close>
  gives the rows. \<open>date_at_check\<close> is the \<open>new Date()\<close> of the freshness test of
  \<open>healthCheck\<close>, \<open>date_at_store\<close> the \<open>new Date()\<close> of its \<open>finally\<close> block. Each method
  makes each of these calls at most once, so one answer per call is enough; two
  method calls in a row take two backends.
\<close>

record backend =
  createConnection :: "createConnection_arg \<Rightarrow> error + Connection"
  connection_connect :: "Connection \<Rightarrow> error + Connection"
  connection_close :: "Connection \<Rightarrow> error + Connection"
  connection_query :: "Connection \<Rightarrow> string \<Rightarrow> error + string list"
  typeorm_getConnection :: "string option \<Rightarrow> error + Connection"
  typeorm_getConnectionOptions :: "string option \<Rightarrow> error + ConnectionOptions"
  date_at_check :: int
  date_at_store :: int

text \<open>The three parts of what a method gives back: result, object afterwards, calls made.\<close>

abbreviation result_of :: "'r \<times> MicroserviceORM \<times> event list \<Rightarrow> 'r" where
  "result_of x \<equiv> fst x"

abbreviation state_of :: "'r \<times> MicroserviceORM \<times> event list \<Rightarrow> MicroserviceORM" where
  "state_of x \<equiv> fst (snd x)"

abbreviation calls_of :: "'r \<times> MicroserviceORM \<times> event list \<Rightarrow> event list" where
  "calls_of x \<equiv> snd (snd x)"

text \<open>\<open>this.app?.info(tag, msg)\<close> and \<open>this.app?.error(tag, msg, detail)\<close>.\<close>

definition log_info :: "MicroserviceORM \<Rightarrow> string \<Rightarrow> string \<Rightarrow> event list" where
  "log_info s tag msg = (case app s of None \<Rightarrow> [] | Some a \<Rightarrow> [AppInfo tag msg])"

definition log_error :: "MicroserviceORM \<Rightarrow> string \<Rightarrow> string \<Rightarrow> string \<Rightarrow> event list" where
  "log_error s tag msg detail = (case app s of None \<Rightarrow> [] | Some a \<Rightarrow> [AppError tag msg detail])"

text \<open>\<open>this.connection?.isConnected\<close> as a condition.\<close>

definition live :: "MicroserviceORM \<Rightarrow> bool" where
  "live s = (case connection s of None \<Rightarrow> False | Some c \<Rightarrow> isConnected c)"

section \<open>The lifecycle controller\<close>

text \<open>The private \<open>getConnectionOptions\<close> (no method of the class calls it).\<close>

definition getConnectionOptions ::
  "backend \<Rightarrow> MicroserviceORM \<Rightarrow> (error + ConnectionOptions) \<times> MicroserviceORM \<times> event list" where
  "getConnectionOptions be s =
     (case connectionOptions s of
        Some options \<Rightarrow> (Inr options, s, [])
      | None \<Rightarrow>
          (case typeorm_getConnectionOptions be (connectionName s) of
             Inl err \<Rightarrow> (Inl err, s, [GetConnectionOptions (connectionName s)])
           | Inr found \<Rightarrow>
               (Inr (fst (setConnectionOptions found s)), snd (setConnectionOptions found s),
                [GetConnectionOptions (connectionName s)])))"

text \<open>
  Lines 93 to 100 of \<open>connect\<close>: the three guarded \<open>createConnection\<close> calls. Each
  one runs only while \<open>this.connection\<close> is still null, and each either throws or
  fills it, so at most one of them is made.
\<close>

definition chosen_argument :: "MicroserviceORM \<Rightarrow> createConnection_arg" where
  "chosen_argument s =
     (case connectionOptions s of
        Some co \<Rightarrow> WithOptions co
      | None \<Rightarrow>
          (case connectionName s of
             Some n \<Rightarrow> if n \<noteq> [] then WithName n else NoArgument
           | None \<Rightarrow> NoArgument))"

definition obtain_connection :: "backend \<Rightarrow> MicroserviceORM \<Rightarrow> (error + Connection) \<times> event list" where
  "obtain_connection be s =
     (case connection s of
        Some c \<Rightarrow> (Inr c, [])
      | None \<Rightarrow> (createConnection be (chosen_argument s), [CreateConnection (chosen_argument s)]))"

text \<open>The body of the \<open>try\<close> block of \<open>connect\<close>; \<open>Inl\<close> is an exception leaving the block.\<close>

definition connect_try :: "backend \<Rightarrow> MicroserviceORM \<Rightarrow> (error + bool) \<times> MicroserviceORM \<times> event list" where
  "connect_try be s =
     (let ev0 = log_info s ''ORM:'' ''Attempting Connection'' in
      case obtain_connection be s of
        (Inl err, ev1) \<Rightarrow> (Inl err, s, ev0 @ ev1)
      | (Inr c, ev1) \<Rightarrow>
          (let s1 = s\<lparr> connection := Some c \<rparr> in
           if \<not> isConnected c then
             (case connection_connect be c of
                Inl err \<Rightarrow> (Inl err, s1, ev0 @ ev1 @ [ConnectionConnect (handle c)])
              | Inr c' \<Rightarrow>
                  (let s2 = s1\<lparr> connection := Some c' \<rparr> in
                   (Inr (if connectionRequired s2 then isConnected c' else True), s2,
                    ev0 @ ev1 @ [ConnectionConnect (handle c)]
                      @ (if isConnected c' then log_info s2 ''ORM:'' ''Connecting'' else []))))
           else
             (Inr (if connectionRequired s1 then isConnected c else True), s1,
              ev0 @ ev1 @ log_info s1 ''ORM:'' ''Connecting'')))"

text \<open>\<open>connect\<close>: the early return, the \<open>try\<close> block, and the \<open>catch\<close> block around it.\<close>

definition connect :: "backend \<Rightarrow> MicroserviceORM \<Rightarrow> (error + bool) \<times> MicroserviceORM \<times> event list" where
  "connect be s =
     (if live s then (Inr True, s, [])
      else
        (case connect_try be s of
           (Inr b, s', ev) \<Rightarrow> (Inr b, s', ev)
         | (Inl err, s', ev) \<Rightarrow>
             (Inr (if connectionRequired s' then False else True), s',
              ev @ log_error s' ''ORM:'' ''Error'' (message err))))"

text \<open>\<open>close\<close>: the awaited \<open>this.connection.close()\<close> stands in no \<open>try\<close> block.\<close>

definition close :: "backend \<Rightarrow> MicroserviceORM \<Rightarrow> (error + bool) \<times> MicroserviceORM \<times> event list" where
  "close be s =
     (case connection s of
        None \<Rightarrow> (Inr True, s, [])
      | Some c \<Rightarrow>
          if \<not> isConnected c then (Inr True, s, [])
          else
            (case connection_close be c of
               Inl err \<Rightarrow> (Inl err, s, [ConnectionClose (handle c)])
             | Inr c' \<Rightarrow>
                 (Inr (if isConnected c' then False else True), s\<lparr> connection := Some c' \<rparr>,
                  [ConnectionClose (handle c)])))"

section \<open>The health cache\<close>

text \<open>
  Lines 132 to 134: \<open>this._lastHealthCheck && this._lastHealthCheckResult\<close> is a
  truthiness test of a \<open>Date | null\<close> and of a \<open>boolean | null\<close>; then the comparison
  of the stored time with \<open>new Date().getTime() - this.healthCheckInterval\<close>. The value
  is the result to return, if the cache is used.
\<close>

definition cached_result :: "backend \<Rightarrow> MicroserviceORM \<Rightarrow> bool option" where
  "cached_result be s =
     (case lastHealthCheck s of
        None \<Rightarrow> None
      | Some t \<Rightarrow>
          (case lastHealthCheckResult s of
             None \<Rightarrow> None
           | Some r \<Rightarrow>
               if r then (if t \<ge> date_at_check be - healthCheckInterval s then Some r else None)
               else None))"

text \<open>Lines 144 to 149: the query in its \<open>try\<close> block; a query that throws counts as false.\<close>

definition check_query :: "backend \<Rightarrow> Connection \<Rightarrow> string \<Rightarrow> bool" where
  "check_query be c q =
     (case connection_query be c q of
        Inl err \<Rightarrow> False
      | Inr check \<Rightarrow> length check > 0)"

text \<open>
  Lines 137 to 154: the check itself, from the call of \<open>connect\<close> on. The early
  \<open>return false\<close> of line 141 stands before the \<open>try\<close> whose \<open>finally\<close> block writes the
  two cache fields.
\<close>

definition perform_check :: "backend \<Rightarrow> MicroserviceORM \<Rightarrow> (error + bool) \<times> MicroserviceORM \<times> event list" where
  "perform_check be s =
     (case connect be s of
        (Inl err, s1, ev1) \<Rightarrow> (Inl err, s1, ev1)
      | (Inr connected, s1, ev1) \<Rightarrow>
          (case connection s1 of
             None \<Rightarrow> (Inr False, s1, ev1)
           | Some c \<Rightarrow>
               if \<not> isConnected c then (Inr False, s1, ev1)
               else
                 (let result = check_query be c (healthCheckQuery s1)
                  in (Inr result,
                      s1\<lparr> lastHealthCheck := Some (date_at_store be),
                          lastHealthCheckResult := Some result \<rparr>,
                      ev1 @ [ConnectionQuery (handle c) (healthCheckQuery s1)]))))"

definition healthCheck :: "backend \<Rightarrow> MicroserviceORM \<Rightarrow> (error + bool) \<times> MicroserviceORM \<times> event list" where
  "healthCheck be s =
     (if unhealthyWithoutConnection s = False then (Inr True, s, [])
      else
        (case cached_result be s of
           Some r \<Rightarrow> (Inr r, s, [])
         | None \<Rightarrow> perform_check be s))"

section \<open>The accessor\<close>

definition getConnection :: "backend \<Rightarrow> MicroserviceORM \<Rightarrow> (error + Connection) \<times> MicroserviceORM \<times> event list" where
  "getConnection be s =
     (case (if \<not> live s then connect be s else (Inr True, s, [])) of
        (Inl err, s1, ev1) \<Rightarrow> (Inl err, s1, ev1)
      | (Inr connected, s1, ev1) \<Rightarrow>
          (case connection s1 of
             Some c \<Rightarrow>
               if isConnected c then (Inr c, s1, ev1)
               else (typeorm_getConnection be (if truthy_string (connectionName s1) then connectionName s1 else None),
                     s1, ev1 @ [GetConnection (if truthy_string (connectionName s1) then connectionName s1 else None)])
           | None \<Rightarrow>
               (typeorm_getConnection be (if truthy_string (connectionName s1) then connectionName s1 else None),
                s1, ev1 @ [GetConnection (if truthy_string (connectionName s1) then connectionName s1 else None)])))"

section \<open>Observers and invariants used in the statements\<close>

text \<open>The endpoint the writes go to, the replica endpoints and the backend kind of a result.\<close>

fun primary :: "MicroserviceORMConnectionOptions \<Rightarrow> endpoint" where
  "primary (SingleServer out e) = e"
| "primary (Replication out m sl) = m"

fun replicas :: "MicroserviceORMConnectionOptions \<Rightarrow> endpoint list" where
  "replicas (SingleServer out e) = []"
| "replicas (Replication out m sl) = sl"

fun options_type :: "MicroserviceORMConnectionOptions \<Rightarrow> db_type" where
  "options_type (SingleServer out e) = type out"
| "options_type (Replication out m sl) = type out"

fun is_replication :: "MicroserviceORMConnectionOptions \<Rightarrow> bool" where
  "is_replication (SingleServer out e) = False"
| "is_replication (Replication out m sl) = True"

text \<open>The credential fields that \<open>...details\<close> copies into an endpoint.\<close>

definition credentials :: "endpoint \<Rightarrow> int \<times> string option \<times> string option \<times> string option" where
  "credentials e = (port e, username e, password e, database e)"



text \<open>A call of the host's \<open>info\<close> or \<open>error\<close>.\<close>

fun is_log :: "event \<Rightarrow> bool" where
  "is_log (AppInfo tag msg) = True"
| "is_log (AppError tag msg detail) = True"
| "is_log e = False"

fun is_query :: "event \<Rightarrow> bool" where
  "is_query (ConnectionQuery h q) = True"
| "is_query e = False"

text \<open>The health cache: the pair of the two private fields.\<close>

definition cache :: "MicroserviceORM \<Rightarrow> int option \<times> bool option" where
  "cache s = (lastHealthCheck s, lastHealthCheckResult s)"

text \<open>The two cache fields are both null or both set.\<close>

definition paired :: "MicroserviceORM \<Rightarrow> bool" where
  "paired s = ((lastHealthCheck s = None) = (lastHealthCheckResult s = None))"

text \<open>
  The objects a host can get to: a fresh one from the constructor, and what the
  methods make of it, whatever typeorm answers.
\<close>

inductive reachable :: "MicroserviceORM \<Rightarrow> bool" where
  constructed: "reachable (constructor a opts)"
| after_connect: "reachable s \<Longrightarrow> reachable (state_of (connect be s))"
| after_close: "reachable s \<Longrightarrow> reachable (state_of (close be s))"
| after_healthCheck: "reachable s \<Longrightarrow> reachable (state_of (healthCheck be s))"
| after_getConnection: "reachable s \<Longrightarrow> reachable (state_of (getConnection be s))"
| after_setConnectionOptions: "reachable s \<Longrightarrow> reachable (snd (setConnectionOptions options s))"
| after_getConnectionOptions: "reachable s \<Longrightarrow> reachable (state_of (getConnectionOptions be s))"

section \<open>Concrete inputs\<close>

text \<open>A database that answers, read at clock time \<open>t\<close>.\<close>

definition backend_up :: "int \<Rightarrow> backend" where
  "backend_up t =
     \<lparr> createConnection = (\<lambda>a. Inr \<lparr> handle = 1, isConnected = True \<rparr>),
       connection_connect = (\<lambda>c. Inr (c\<lparr> isConnected := True \<rparr>)),
       connection_close = (\<lambda>c. Inr (c\<lparr> isConnected := False \<rparr>)),
       connection_query = (\<lambda>c q. Inr [''1'']),
       typeorm_getConnection = (\<lambda>n. Inr \<lparr> handle = 1, isConnected = True \<rparr>),
       typeorm_getConnectionOptions = (\<lambda>n. Inr \<lparr> name = n, ident = 0 \<rparr>),
       date_at_check = t, date_at_store = t \<rparr>"

text \<open>A database that refuses every call, read at clock time \<open>t\<close>.\<close>

definition backend_down :: "int \<Rightarrow> backend" where
  "backend_down t =
     \<lparr> createConnection = (\<lambda>a. Inl (Error ''ECONNREFUSED'')),
       connection_connect = (\<lambda>c. Inl (Error ''ECONNREFUSED'')),
       connection_close = (\<lambda>c. Inl (Error ''ECONNREFUSED'')),
       connection_query = (\<lambda>c q. Inl (Error ''ECONNREFUSED'')),
       typeorm_getConnection = (\<lambda>n. Inl (Error ''ConnectionNotFoundError'')),
       typeorm_getConnectionOptions = (\<lambda>n. Inl (Error ''ECONNREFUSED'')),
       date_at_check = t, date_at_store = t \<rparr>"

text \<open>A database that accepts connections and fails the query, read at clock time \<open>t\<close>.\<close>

definition backend_query_fails :: "int \<Rightarrow> backend" where
  "backend_query_fails t = (backend_up t)\<lparr> connection_query := (\<lambda>c q. Inl (Error ''ER_QUERY'')) \<rparr>"

definition no_options :: MicroserviceORMOptions where
  "no_options =
     \<lparr> opts_connectionName = None, opts_connectionOptions = None,
       opts_connectionRequired = None, opts_unhealthyWithoutConnection = None,
       opts_connectionAttemptInterval = None, opts_healthCheckQuery = None,
       opts_healthCheckInterval = None, opts_config = None \<rparr>"

definition bare_host :: Microservice where
  "bare_host = \<lparr> startupHooks = [], shutdownHooks = [], healthChecks = [] \<rparr>"

text \<open>\<open>new MicroserviceORM()\<close> and \<open>new MicroserviceORM(app)\<close>.\<close>

definition fresh :: MicroserviceORM where
  "fresh = constructor None None"

definition fresh_bound :: MicroserviceORM where
  "fresh_bound = constructor (Some bare_host) None"

text \<open>\<open>new MicroserviceORM(undefined, {unhealthyWithoutConnection: false})\<close>.\<close>

definition opted_out :: MicroserviceORM where
  "opted_out = constructor None (Some (no_options\<lparr> opts_unhealthyWithoutConnection := Some False \<rparr>))"

text \<open>
  A bound object holding a live connection; the same after a healthy check at clock
  time 1000; and that one after a \<open>close()\<close> that worked.
\<close>

definition connected :: MicroserviceORM where
  "connected = fresh_bound\<lparr> connection := Some \<lparr> handle = 1, isConnected = True \<rparr> \<rparr>"

definition checked :: MicroserviceORM where
  "checked = connected\<lparr> lastHealthCheck := Some 1000, lastHealthCheckResult := Some True \<rparr>"

definition closed_after_check :: MicroserviceORM where
  "closed_after_check = checked\<lparr> connection := Some \<lparr> handle = 1, isConnected = False \<rparr> \<rparr>"

text \<open>The configuration of the replication scenario, and variations of it.\<close>

definition app_config :: MicroserviceORMConfig where
  "app_config =
     \<lparr> cfg_type = mysql, cfg_master = ''db1'',
       cfg_slaves = Some (SlaveArray [''db2'', ''db3'']),
       cfg_port = Some 3306, cfg_database = Some ''app'',
       cfg_username = Some ''u'', cfg_password = Some ''p'' \<rparr>"

definition stored_config :: MicroserviceORMConfig where
  "stored_config =
     \<lparr> cfg_type = postgres, cfg_master = ''pg1'', cfg_slaves = None,
       cfg_port = Some 5432, cfg_database = Some ''main'',
       cfg_username = Some ''admin'', cfg_password = Some ''secret'' \<rparr>"

text \<open>The same with no replicas, with \<open>slaves: ""\<close>, and with \<open>port: 0\<close>.\<close>

definition single_config :: MicroserviceORMConfig where
  "single_config = app_config\<lparr> cfg_slaves := None \<rparr>"

definition empty_slave_config :: MicroserviceORMConfig where
  "empty_slave_config = app_config\<lparr> cfg_slaves := Some (SlaveString '''') \<rparr>"

definition zero_port_config :: MicroserviceORMConfig where
  "zero_port_config = app_config\<lparr> cfg_port := Some 0 \<rparr>"

text \<open>A per-call configuration that sets little: no port, an empty master and password.\<close>

definition partial_config :: MicroserviceORMConfig where
  "partial_config =
     \<lparr> cfg_type = mysql, cfg_master = '''', cfg_slaves = None,
       cfg_port = None, cfg_database = None,
       cfg_username = Some ''u'', cfg_password = Some '''' \<rparr>"

definition with_stored :: MicroserviceORM where
  "with_stored = constructor None (Some (no_options\<lparr> opts_config := Some stored_config \<rparr>))"

section \<open>Evaluating the concrete inputs\<close>

lemma fresh_eval:
  "fresh = \<lparr> app = None, connection = None, config = None,
       connectionRequired = True, unhealthyWithoutConnection = True,
       connectionAttemptInterval = 15000, healthCheckQuery = ''SELECT 1'',
       healthCheckInterval = 15000,
       lastConnectionAttempt = None, lastHealthCheck = None, lastHealthCheckResult = None,
       connectionOptions = None, connectionName = None \<rparr>"
  by (simp add: fresh_def constructor_def field_initialisers_def opt_chain_def)

lemma fresh_bound_eval:
  "fresh_bound = \<lparr> app = Some \<lparr> startupHooks = [connect_hook], shutdownHooks = [close_hook],
                              healthChecks = [healthCheck_hook] \<rparr>,
       connection = None, config = None,
       connectionRequired = True, unhealthyWithoutConnection = True,
       connectionAttemptInterval = 15000, healthCheckQuery = ''SELECT 1'',
       healthCheckInterval = 15000,
       lastConnectionAttempt = None, lastHealthCheck = None, lastHealthCheckResult = None,
       connectionOptions = None, connectionName = None \<rparr>"
  by (simp add: fresh_bound_def constructor_def field_initialisers_def opt_chain_def bindTo_def bare_host_def)

lemma opted_out_eval: "opted_out = fresh\<lparr> unhealthyWithoutConnection := False \<rparr>"
  by (simp add: opted_out_def fresh_def constructor_def field_initialisers_def opt_chain_def no_options_def)

lemma with_stored_eval: "with_stored = fresh\<lparr> config := Some stored_config \<rparr>"
  by (simp add: with_stored_def fresh_def constructor_def field_initialisers_def opt_chain_def no_options_def)

lemmas method_defs = connect_def connect_try_def obtain_connection_def chosen_argument_def live_def
  log_info_def log_error_def close_def healthCheck_def cached_result_def perform_check_def
  check_query_def Let_def

lemmas input_defs = fresh_eval fresh_bound_eval opted_out_eval connected_def checked_def
  closed_after_check_def backend_up_def backend_down_def backend_query_fails_def

lemmas build_defs = buildConnectionOptions_def build_output_def build_details_def build_master_def
  build_slaves_def with_host_def or_number_def or_string_def or_slaves_def truthy_number_def
  truthy_string_def truthy_slaves_def opt_chain_def credentials_def Let_def

lemmas config_defs = app_config_def stored_config_def single_config_def empty_slave_config_def
  zero_port_config_def partial_config_def with_stored_eval fresh_eval

section \<open>The constructor\<close>

lemma bindTo_fields:
  "healthCheckInterval (bindTo m s) = healthCheckInterval s"
  "connectionAttemptInterval (bindTo m s) = connectionAttemptInterval s"
  "healthCheckQuery (bindTo m s) = healthCheckQuery s"
  "connectionRequired (bindTo m s) = connectionRequired s"
  "unhealthyWithoutConnection (bindTo m s) = unhealthyWithoutConnection s"
  "lastHealthCheck (bindTo m s) = lastHealthCheck s"
  "lastHealthCheckResult (bindTo m s) = lastHealthCheckResult s"
  by (simp_all add: bindTo_def)

lemma constructor_healthCheckInterval: "healthCheckInterval (constructor a opts) = 15000"
  unfolding constructor_def Let_def
  by (simp add: bindTo_fields field_initialisers_def split: option.split)

lemma constructor_cache:
  "lastHealthCheck (constructor a opts) = None \<and> lastHealthCheckResult (constructor a opts) = None"
  unfolding constructor_def Let_def
  by (simp add: bindTo_fields field_initialisers_def split: option.split)

lemma constructor_connectionAttemptInterval:
  "connectionAttemptInterval (constructor a opts) =
     (case opt_chain opts opts_connectionAttemptInterval of
        Some n \<Rightarrow> if n \<noteq> 0 then n else 15000 | None \<Rightarrow> 15000)"
  unfolding constructor_def Let_def
  by (simp add: bindTo_fields field_initialisers_def split: option.split)

lemma constructor_healthCheckQuery:
  "healthCheckQuery (constructor a opts) =
     (case opt_chain opts opts_healthCheckQuery of
        Some q \<Rightarrow> if q \<noteq> [] then q else ''SELECT 1'' | None \<Rightarrow> ''SELECT 1'')"
  unfolding constructor_def Let_def
  by (simp add: bindTo_fields field_initialisers_def split: option.split)

lemma constructor_connectionRequired:
  "connectionRequired (constructor a opts) =
     (case opt_chain opts opts_connectionRequired of Some b \<Rightarrow> b | None \<Rightarrow> True)"
  unfolding constructor_def Let_def
  by (simp add: bindTo_fields field_initialisers_def split: option.split)

lemma constructor_unhealthyWithoutConnection:
  "unhealthyWithoutConnection (constructor a opts) =
     (case opt_chain opts opts_unhealthyWithoutConnection of Some b \<Rightarrow> b | None \<Rightarrow> True)"
  unfolding constructor_def Let_def
  by (simp add: bindTo_fields field_initialisers_def split: option.split)

text \<open>
  Claim C10. Whatever options the constructor is given, \<open>healthCheckInterval\<close> is 15000
  afterwards, since \<open>opts.healthCheckInterval\<close> is never read. An option
  \<open>connectionAttemptInterval\<close> is taken over when it is not 0 and an option
  \<open>healthCheckQuery\<close> when it is not the empty string; 0 and \<open>""\<close> leave the defaults
  15000 and \<open>SELECT 1\<close>. The two boolean options are taken over as they are, \<open>false\<close>
  included. The options \<open>o1\<close> and the host \<open>a\<close> are arbitrary.
\<close>

theorem constructor_options:
  "healthCheckInterval (constructor a opts) = 15000
 \<and> connectionAttemptInterval (constructor a (Some (o1\<lparr> opts_connectionAttemptInterval := Some n \<rparr>)))
     = (if n \<noteq> 0 then n else 15000)
 \<and> healthCheckQuery (constructor a (Some (o1\<lparr> opts_healthCheckQuery := Some q \<rparr>)))
     = (if q \<noteq> [] then q else ''SELECT 1'')
 \<and> connectionRequired (constructor a (Some (o1\<lparr> opts_connectionRequired := Some b \<rparr>))) = b
 \<and> unhealthyWithoutConnection (constructor a (Some (o1\<lparr> opts_unhealthyWithoutConnection := Some b \<rparr>))) = b"
  by (simp add: constructor_healthCheckInterval constructor_connectionAttemptInterval
      constructor_healthCheckQuery constructor_connectionRequired
      constructor_unhealthyWithoutConnection opt_chain_def)

text \<open>
  The same at concrete options: an interval option of 500 is ignored, 0 and \<open>""\<close> leave
  the defaults, \<open>false\<close> is honoured.
\<close>

theorem constructor_options_witness:
  "healthCheckInterval (constructor None (Some (no_options\<lparr> opts_healthCheckInterval := Some 500 \<rparr>))) = 15000
 \<and> connectionAttemptInterval (constructor None (Some (no_options\<lparr> opts_connectionAttemptInterval := Some 0 \<rparr>))) = 15000
 \<and> healthCheckQuery (constructor None (Some (no_options\<lparr> opts_healthCheckQuery := Some '''' \<rparr>))) = ''SELECT 1''
 \<and> connectionRequired (constructor None (Some (no_options\<lparr> opts_connectionRequired := Some False \<rparr>))) = False
 \<and> unhealthyWithoutConnection (constructor None (Some (no_options\<lparr> opts_unhealthyWithoutConnection := Some False \<rparr>))) = False"
  using constructor_options [where a = None
      and opts = "Some (no_options\<lparr> opts_healthCheckInterval := Some 500 \<rparr>)"
      and ?o1.0 = no_options and n = 0 and q = "[]" and b = False]
  by simp

section \<open>connect\<close>

text \<open>\<open>connect\<close> and \<open>close\<close> write no field but \<open>connection\<close>.\<close>

lemma connect_try_state:
  "state_of (connect_try be s) = s\<lparr> connection := connection (state_of (connect_try be s)) \<rparr>"
  by (simp add: connect_try_def obtain_connection_def Let_def split: option.split sum.split)

lemma connect_state:
  "state_of (connect be s) = s\<lparr> connection := connection (state_of (connect be s)) \<rparr>"
proof (cases "live s")
  case True
  then show ?thesis by (simp add: connect_def)
next
  case False
  obtain r s' ev where t: "connect_try be s = (r, s', ev)"
    by (cases "connect_try be s") auto
  with connect_try_state [of be s] have "s' = s\<lparr> connection := connection s' \<rparr>" by simp
  with False t show ?thesis by (cases r) (simp_all add: connect_def)
qed

lemma close_state:
  "state_of (close be s) = s\<lparr> connection := connection (state_of (close be s)) \<rparr>"
  by (simp add: close_def split: option.split sum.split)

lemma connect_keeps:
  "unhealthyWithoutConnection (state_of (connect be s)) = unhealthyWithoutConnection s"
  "healthCheckInterval (state_of (connect be s)) = healthCheckInterval s"
  "healthCheckQuery (state_of (connect be s)) = healthCheckQuery s"
  "connectionRequired (state_of (connect be s)) = connectionRequired s"
  "lastHealthCheck (state_of (connect be s)) = lastHealthCheck s"
  "lastHealthCheckResult (state_of (connect be s)) = lastHealthCheckResult s"
  "app (state_of (connect be s)) = app s"
  by (subst connect_state, simp)+

text \<open>The \<open>catch\<close> block turns every exception of the \<open>try\<close> block into a boolean.\<close>

lemma connect_returns: "\<exists>b. result_of (connect be s) = Inr b"
proof (cases "live s")
  case True
  then show ?thesis by (auto simp: connect_def)
next
  case False
  obtain r s' ev where t: "connect_try be s = (r, s', ev)"
    by (cases "connect_try be s") auto
  with False show ?thesis by (cases r) (auto simp: connect_def)
qed

text \<open>The three places where the \<open>try\<close> block can throw.\<close>

lemma connect_try_create_throws:
  "connection s = None \<Longrightarrow> createConnection be (chosen_argument s) = Inl err \<Longrightarrow>
   connect_try be s =
     (Inl err, s, log_info s ''ORM:'' ''Attempting Connection'' @ [CreateConnection (chosen_argument s)])"
  by (simp add: connect_try_def obtain_connection_def)

lemma connect_try_activate_throws:
  "connection s = Some c \<Longrightarrow> \<not> isConnected c \<Longrightarrow> connection_connect be c = Inl err \<Longrightarrow>
   connect_try be s =
     (Inl err, s, log_info s ''ORM:'' ''Attempting Connection'' @ [ConnectionConnect (handle c)])"
  by (simp add: connect_try_def obtain_connection_def)

lemma connect_try_create_activate_throws:
  "connection s = None \<Longrightarrow> createConnection be (chosen_argument s) = Inr c \<Longrightarrow>
   \<not> isConnected c \<Longrightarrow> connection_connect be c = Inl err \<Longrightarrow>
   connect_try be s =
     (Inl err, s\<lparr> connection := Some c \<rparr>,
      log_info s ''ORM:'' ''Attempting Connection''
        @ [CreateConnection (chosen_argument s), ConnectionConnect (handle c)])"
  by (simp add: connect_try_def obtain_connection_def)

lemma connect_no_query: "filter is_query (calls_of (connect be s)) = []"
  by (simp add: connect_def connect_try_def obtain_connection_def log_info_def log_error_def Let_def
      split: option.split sum.split)


lemma connect_unbound_no_log: "app s = None \<Longrightarrow> filter is_log (calls_of (connect be s)) = []"
  by (simp add: connect_def connect_try_def obtain_connection_def log_info_def log_error_def Let_def
      connect_try_state [of be s, THEN arg_cong, of app]
      split: option.split sum.split)






text \<open>
  Claim C3, as the code has it. \<open>connect\<close> always returns a boolean: no exception leaves
  it. When \<open>createConnection\<close> throws, or \<open>connect()\<close> of a handle that is not connected
  throws (a handle the object held already, or one \<open>createConnection\<close> just returned),
  the result is \<open>false\<close> if \<open>connectionRequired\<close> and \<open>true\<close> if not, and if a host is
  bound the last call made is \<open>app.error('ORM:', 'Error', err.message)\<close>. The logging
  goes through \<open>this.app?.error\<close>: without a host nothing is logged.
\<close>

theorem connect_catches_backend_errors:
  "(\<exists>b. result_of (connect be s) = Inr b) \<and>
   ((connection s = None \<and> createConnection be (chosen_argument s) = Inl err)
     \<or> (connection s = Some c \<and> \<not> isConnected c \<and> connection_connect be c = Inl err)
     \<or> (connection s = None \<and> createConnection be (chosen_argument s) = Inr c
          \<and> \<not> isConnected c \<and> connection_connect be c = Inl err)
    \<longrightarrow> result_of (connect be s) = Inr (if connectionRequired s then False else True)
        \<and> (\<forall>a. app s = Some a \<longrightarrow>
              (\<exists>before. calls_of (connect be s) = before @ [AppError ''ORM:'' ''Error'' (message err)]))
        \<and> (app s = None \<longrightarrow> filter is_log (calls_of (connect be s)) = []))"
proof (intro conjI impI)
  show "\<exists>b. result_of (connect be s) = Inr b" by (rule connect_returns)
next
  assume f: "(connection s = None \<and> createConnection be (chosen_argument s) = Inl err)
     \<or> (connection s = Some c \<and> \<not> isConnected c \<and> connection_connect be c = Inl err)
     \<or> (connection s = None \<and> createConnection be (chosen_argument s) = Inr c
          \<and> \<not> isConnected c \<and> connection_connect be c = Inl err)"
  then have nl: "\<not> live s" by (auto simp: live_def)
  from f obtain s' ev where t: "connect_try be s = (Inl err, s', ev)"
    and r: "connectionRequired s' = connectionRequired s" and a: "app s' = app s"
    using connect_try_create_throws [of s be err] connect_try_activate_throws [of s c be err]
      connect_try_create_activate_throws [of s be c err] by auto
  from nl t r show "result_of (connect be s) = Inr (if connectionRequired s then False else True)"
    by (simp add: connect_def)
  show "\<forall>a. app s = Some a \<longrightarrow>
          (\<exists>before. calls_of (connect be s) = before @ [AppError ''ORM:'' ''Error'' (message err)])"
    using nl t a by (simp add: connect_def log_error_def)
  assume "app s = None"
  then show "filter is_log (calls_of (connect be s)) = []"
    by (rule connect_unbound_no_log)
qed

text \<open>
  A bound object with required connection, against a database that refuses: the
  result is \<open>false\<close> and the last call is the host's \<open>error\<close> with the message.
\<close>

theorem connect_catches_backend_errors_witness:
  "connection fresh_bound = None
 \<and> createConnection (backend_down 0) (chosen_argument fresh_bound) = Inl (Error ''ECONNREFUSED'')
 \<and> result_of (connect (backend_down 0) fresh_bound) = Inr False
 \<and> last (calls_of (connect (backend_down 0) fresh_bound))
     = AppError ''ORM:'' ''Error'' ''ECONNREFUSED''"
proof -
  have h1: "connection fresh_bound = None" by (simp add: input_defs)
  have h2: "createConnection (backend_down 0) (chosen_argument fresh_bound) = Inl (Error ''ECONNREFUSED'')"
    by (simp add: input_defs)
  have h3: "connectionRequired fresh_bound" by (simp add: input_defs)
  have h4: "app fresh_bound = Some \<lparr> startupHooks = [connect_hook], shutdownHooks = [close_hook],
                              healthChecks = [healthCheck_hook] \<rparr>" by (simp add: input_defs)
  from connect_catches_backend_errors
         [of "backend_down 0" fresh_bound "Error ''ECONNREFUSED''" "\<lparr> handle = 0, isConnected = False \<rparr>"]
    h1 h2 h3 h4 show ?thesis by auto
qed

text \<open>
  Claim C3 as stated fails without a host: \<open>new MicroserviceORM()\<close> against a database
  that refuses returns \<open>false\<close>, and the only call made is \<open>createConnection()\<close>; the
  error is logged nowhere.
\<close>

theorem connect_unbound_logs_nothing:
  "connect (backend_down 0) fresh = (Inr False, fresh, [CreateConnection NoArgument])"
  by (simp add: method_defs input_defs)





section \<open>close\<close>

text \<open>
  Claim C8, as the code has it. Without a live handle (none, or one that is not
  connected) \<open>close\<close> returns \<open>true\<close>, makes no call and changes nothing. With a live
  handle it calls \<open>close()\<close> of the handle once; if that call returns, the result is
  \<open>true\<close> exactly when the handle is not connected afterwards, and the object keeps the
  handle; if that call throws, the exception leaves \<open>close\<close>. In no case does an
  object that held a handle end up without one.
\<close>

theorem close_keeps_handle:
  "(\<not> live s \<longrightarrow> close be s = (Inr True, s, []))
 \<and> (\<forall>c. connection s = Some c \<and> isConnected c \<longrightarrow>
        calls_of (close be s) = [ConnectionClose (handle c)]
      \<and> (\<forall>c'. connection_close be c = Inr c' \<longrightarrow>
             close be s = (Inr (\<not> isConnected c'), s\<lparr> connection := Some c' \<rparr>,
                           [ConnectionClose (handle c)]))
      \<and> (\<forall>err. connection_close be c = Inl err \<longrightarrow>
             close be s = (Inl err, s, [ConnectionClose (handle c)])))
 \<and> (\<forall>c. connection s = Some c \<longrightarrow> (\<exists>c'. connection (state_of (close be s)) = Some c'))"
  by (auto simp: close_def live_def split: option.splits sum.splits)

text \<open>An object without a handle, and a connected object whose handle closes.\<close>

theorem close_keeps_handle_witness:
  "\<not> live fresh \<and> close (backend_up 0) fresh = (Inr True, fresh, [])
 \<and> connection connected = Some \<lparr> handle = 1, isConnected = True \<rparr>
 \<and> connection_close (backend_up 0) \<lparr> handle = 1, isConnected = True \<rparr>
     = Inr \<lparr> handle = 1, isConnected = False \<rparr>
 \<and> close (backend_up 0) connected
     = (Inr True, connected\<lparr> connection := Some \<lparr> handle = 1, isConnected = False \<rparr> \<rparr>,
        [ConnectionClose 1])
 \<and> connection (state_of (close (backend_up 0) connected)) \<noteq> None"
proof -
  have h1: "\<not> live fresh" by (simp add: live_def input_defs)
  have h2: "connection connected = Some \<lparr> handle = 1, isConnected = True \<rparr>"
    by (simp add: input_defs)
  have h3: "connection_close (backend_up 0) \<lparr> handle = 1, isConnected = True \<rparr>
     = Inr \<lparr> handle = 1, isConnected = False \<rparr>"
    by (simp add: input_defs)
  from close_keeps_handle [of fresh "backend_up 0"] h1
  have a: "close (backend_up 0) fresh = (Inr True, fresh, [])" by simp
  from close_keeps_handle [of connected "backend_up 0"] h2 h3
  have b: "close (backend_up 0) connected
     = (Inr True, connected\<lparr> connection := Some \<lparr> handle = 1, isConnected = False \<rparr> \<rparr>,
        [ConnectionClose 1])"
    and c: "connection (state_of (close (backend_up 0) connected)) \<noteq> None"
    by auto
  from h1 h2 h3 a b c show ?thesis by simp
qed

text \<open>
  Claim C8 as stated fails: after a \<open>close()\<close> that worked, \<open>this.connection\<close> is not
  null; it is the same handle, no longer connected.
\<close>

theorem close_handle_not_emptied:
  "result_of (close (backend_up 0) connected) = Inr True
 \<and> connection (state_of (close (backend_up 0) connected)) = Some \<lparr> handle = 1, isConnected = False \<rparr>"
  by (simp add: method_defs input_defs)

section \<open>healthCheck\<close>

text \<open>The two ways the check ends once \<open>connect\<close> has returned.\<close>

lemma perform_check_no_connection:
  assumes "\<not> live (state_of (connect be s))"
  shows "perform_check be s = (Inr False, state_of (connect be s), calls_of (connect be s))"
proof -
  obtain b s1 ev1 where c: "connect be s = (Inr b, s1, ev1)"
    using connect_returns [of be s] by (cases "connect be s") auto
  show ?thesis using assms
    by (auto simp: perform_check_def c live_def split: option.splits)
qed

lemma perform_check_query:
  assumes "connection (state_of (connect be s)) = Some c" "isConnected c"
  shows "perform_check be s =
     (Inr (check_query be c (healthCheckQuery s)),
      (state_of (connect be s))\<lparr> lastHealthCheck := Some (date_at_store be),
         lastHealthCheckResult := Some (check_query be c (healthCheckQuery s)) \<rparr>,
      calls_of (connect be s) @ [ConnectionQuery (handle c) (healthCheckQuery s)])"
proof -
  obtain b s1 ev1 where c: "connect be s = (Inr b, s1, ev1)"
    using connect_returns [of be s] by (cases "connect be s") auto
  have q: "healthCheckQuery s1 = healthCheckQuery s"
    using connect_keeps(3) [of be s] by (simp add: c)
  show ?thesis using assms
    by (simp add: perform_check_def c q Let_def)
qed

lemma healthCheck_performs:
  "unhealthyWithoutConnection s \<Longrightarrow> cached_result be s = None \<Longrightarrow>
   healthCheck be s = perform_check be s"
  by (simp add: healthCheck_def)

lemma healthCheck_cached:
  "unhealthyWithoutConnection s \<Longrightarrow> cached_result be s = Some r \<Longrightarrow>
   healthCheck be s = (Inr r, s, [])"
  by (simp add: healthCheck_def)

lemma cached_result_fresh:
  "lastHealthCheck s = Some t \<Longrightarrow> lastHealthCheckResult s = Some True \<Longrightarrow>
   t \<ge> date_at_check be - healthCheckInterval s \<Longrightarrow> cached_result be s = Some True"
  by (simp add: cached_result_def)

lemma cached_result_stale:
  "lastHealthCheck s = Some t \<Longrightarrow> t < date_at_check be - healthCheckInterval s \<Longrightarrow>
   cached_result be s = None"
  by (simp add: cached_result_def split: option.split)

lemma cached_result_true:
  "cached_result be s = Some r \<Longrightarrow>
   r \<and> lastHealthCheckResult s = Some True \<and> (\<exists>t. lastHealthCheck s = Some t)"
  by (auto simp: cached_result_def split: option.splits if_splits)

text \<open>What a call of \<open>healthCheck\<close> does to the fields it does not own, and to the cache.\<close>

lemma healthCheck_keeps:
  "unhealthyWithoutConnection (state_of (healthCheck be s)) = unhealthyWithoutConnection s"
  "healthCheckInterval (state_of (healthCheck be s)) = healthCheckInterval s"
proof -
  have "unhealthyWithoutConnection (state_of (healthCheck be s)) = unhealthyWithoutConnection s
      \<and> healthCheckInterval (state_of (healthCheck be s)) = healthCheckInterval s"
  proof (cases "unhealthyWithoutConnection s")
    case False
    then show ?thesis by (simp add: healthCheck_def)
  next
    case u: True
    show ?thesis
    proof (cases "cached_result be s")
      case (Some r)
      with u show ?thesis by (simp add: healthCheck_cached)
    next
      case None
      show ?thesis
      proof (cases "live (state_of (connect be s))")
        case False
        with u None show ?thesis
          by (simp add: healthCheck_performs perform_check_no_connection connect_keeps)
      next
        case True
        then obtain c where "connection (state_of (connect be s)) = Some c" "isConnected c"
          by (auto simp: live_def split: option.splits)
        with u None show ?thesis
          by (simp add: healthCheck_performs perform_check_query connect_keeps)
      qed
    qed
  qed
  then show "unhealthyWithoutConnection (state_of (healthCheck be s)) = unhealthyWithoutConnection s"
    and "healthCheckInterval (state_of (healthCheck be s)) = healthCheckInterval s" by simp_all
qed

lemma healthCheck_cache:
  "cache (state_of (healthCheck be s)) = cache s
   \<or> (\<exists>b. result_of (healthCheck be s) = Inr b
          \<and> cache (state_of (healthCheck be s)) = (Some (date_at_store be), Some b))"
proof (cases "unhealthyWithoutConnection s")
  case False
  then show ?thesis by (simp add: healthCheck_def)
next
  case u: True
  show ?thesis
  proof (cases "cached_result be s")
    case (Some r)
    with u show ?thesis by (simp add: healthCheck_cached)
  next
    case None
    show ?thesis
    proof (cases "live (state_of (connect be s))")
      case False
      with u None show ?thesis
        by (simp add: healthCheck_performs perform_check_no_connection connect_keeps cache_def)
    next
      case True
      then obtain c where "connection (state_of (connect be s)) = Some c" "isConnected c"
        by (auto simp: live_def split: option.splits)
      with u None show ?thesis
        by (simp add: healthCheck_performs perform_check_query cache_def)
    qed
  qed
qed

lemma healthCheck_true_cached:
  assumes u: "unhealthyWithoutConnection s" and r: "result_of (healthCheck be s) = Inr True"
  shows "lastHealthCheckResult (state_of (healthCheck be s)) = Some True
       \<and> (\<exists>t. lastHealthCheck (state_of (healthCheck be s)) = Some t
               \<and> (cached_result be s = None \<longrightarrow> t = date_at_store be))"
proof (cases "cached_result be s")
  case (Some b)
  with u cached_result_true [of be s b] show ?thesis by (auto simp: healthCheck_cached)
next
  case None
  show ?thesis
  proof (cases "live (state_of (connect be s))")
    case False
    with u None r show ?thesis
      by (simp add: healthCheck_performs perform_check_no_connection)
  next
    case True
    then obtain c where "connection (state_of (connect be s)) = Some c" "isConnected c"
      by (auto simp: live_def split: option.splits)
    with u None r show ?thesis
      by (simp add: healthCheck_performs perform_check_query)
  qed
qed

text \<open>
  Claim C7. With \<open>unhealthyWithoutConnection\<close> false, \<open>healthCheck\<close> returns \<open>true\<close>,
  makes no call and leaves the whole object as it was, whatever the object holds and
  whatever the database would answer.
\<close>

theorem healthCheck_opt_out:
  "unhealthyWithoutConnection s = False \<Longrightarrow> healthCheck be s = (Inr True, s, [])"
  by (simp add: healthCheck_def)

text \<open>An object constructed with the option off and never connected, database down.\<close>

theorem healthCheck_opt_out_witness:
  "unhealthyWithoutConnection opted_out = False \<and> connection opted_out = None
 \<and> healthCheck (backend_down 0) opted_out = (Inr True, opted_out, [])"
proof -
  have h: "unhealthyWithoutConnection opted_out = False" by (simp add: input_defs)
  have n: "connection opted_out = None" by (simp add: input_defs)
  from h n healthCheck_opt_out [OF h, of "backend_down 0"] show ?thesis by simp
qed

text \<open>
  Claim C2, as the code has it. Take a call that gets past the freshness test
  (\<open>unhealthyWithoutConnection\<close> is on and the cache is not used). If \<open>connect\<close> leaves a
  live handle \<open>c\<close>, the query runs and both cache fields are written before the call
  returns: the time is the clock reading of the \<open>finally\<close> block and the result is the
  value returned, which is \<open>false\<close> when the query throws and otherwise tells whether
  it returned a row. If \<open>connect\<close> leaves no live handle, the call returns \<open>false\<close> at
  line 141 and both cache fields stay as they were.
\<close>

theorem healthCheck_cache_written_after_query:
  assumes "unhealthyWithoutConnection s" and "cached_result be s = None"
  shows "(\<forall>c. connection (state_of (connect be s)) = Some c \<and> isConnected c \<longrightarrow>
            result_of (healthCheck be s) = Inr (check_query be c (healthCheckQuery s))
          \<and> lastHealthCheck (state_of (healthCheck be s)) = Some (date_at_store be)
          \<and> lastHealthCheckResult (state_of (healthCheck be s))
              = Some (check_query be c (healthCheckQuery s))
          \<and> (\<forall>err. connection_query be c (healthCheckQuery s) = Inl err \<longrightarrow>
                 \<not> check_query be c (healthCheckQuery s))
          \<and> (\<forall>rows. connection_query be c (healthCheckQuery s) = Inr rows \<longrightarrow>
                 check_query be c (healthCheckQuery s) = (length rows > 0)))
       \<and> (\<not> live (state_of (connect be s)) \<longrightarrow>
            result_of (healthCheck be s) = Inr False
          \<and> lastHealthCheck (state_of (healthCheck be s)) = lastHealthCheck s
          \<and> lastHealthCheckResult (state_of (healthCheck be s)) = lastHealthCheckResult s)"
proof (intro conjI allI impI)
  fix c
  assume "connection (state_of (connect be s)) = Some c \<and> isConnected c"
  then have p: "healthCheck be s =
     (Inr (check_query be c (healthCheckQuery s)),
      (state_of (connect be s))\<lparr> lastHealthCheck := Some (date_at_store be),
         lastHealthCheckResult := Some (check_query be c (healthCheckQuery s)) \<rparr>,
      calls_of (connect be s) @ [ConnectionQuery (handle c) (healthCheckQuery s)])"
    using assms perform_check_query [of be s c] by (simp add: healthCheck_performs)
  show "result_of (healthCheck be s) = Inr (check_query be c (healthCheckQuery s))"
    by (simp add: p)
  show "lastHealthCheck (state_of (healthCheck be s)) = Some (date_at_store be)"
    by (simp add: p)
  show "lastHealthCheckResult (state_of (healthCheck be s))
          = Some (check_query be c (healthCheckQuery s))"
    by (simp add: p)
next
  fix c err
  assume "connection_query be c (healthCheckQuery s) = Inl err"
  then show "\<not> check_query be c (healthCheckQuery s)" by (simp add: check_query_def)
next
  fix c rows
  assume "connection_query be c (healthCheckQuery s) = Inr rows"
  then show "check_query be c (healthCheckQuery s) = (length rows > 0)"
    by (simp add: check_query_def)
next
  assume n: "\<not> live (state_of (connect be s))"
  then have p: "healthCheck be s = (Inr False, state_of (connect be s), calls_of (connect be s))"
    using assms perform_check_no_connection [of be s] by (simp add: healthCheck_performs)
  show "result_of (healthCheck be s) = Inr False" by (simp add: p)
  show "lastHealthCheck (state_of (healthCheck be s)) = lastHealthCheck s"
    by (simp add: p connect_keeps)
  show "lastHealthCheckResult (state_of (healthCheck be s)) = lastHealthCheckResult s"
    by (simp add: p connect_keeps)
qed

text \<open>
  A bound, fresh object probed at clock time 1000 against a database that answers,
  one whose query fails, and one that refuses the connection.
\<close>

theorem healthCheck_cache_written_after_query_witness:
  "unhealthyWithoutConnection fresh_bound \<and> cached_result (backend_up 1000) fresh_bound = None
 \<and> result_of (healthCheck (backend_up 1000) fresh_bound) = Inr True
 \<and> cache (state_of (healthCheck (backend_up 1000) fresh_bound)) = (Some 1000, Some True)
 \<and> result_of (healthCheck (backend_query_fails 1000) fresh_bound) = Inr False
 \<and> cache (state_of (healthCheck (backend_query_fails 1000) fresh_bound)) = (Some 1000, Some False)
 \<and> \<not> live (state_of (connect (backend_down 1000) fresh_bound))
 \<and> result_of (healthCheck (backend_down 1000) fresh_bound) = Inr False
 \<and> cache (state_of (healthCheck (backend_down 1000) fresh_bound)) = cache fresh_bound"
proof -
  let ?c = "\<lparr> handle = 1, isConnected = True \<rparr>"
  have u: "unhealthyWithoutConnection fresh_bound" by (simp add: input_defs)
  have n: "cached_result (backend_up 1000) fresh_bound = None"
    "cached_result (backend_query_fails 1000) fresh_bound = None"
    "cached_result (backend_down 1000) fresh_bound = None"
    by (simp_all add: cached_result_def input_defs)
  have l: "connection (state_of (connect (backend_up 1000) fresh_bound)) = Some ?c"
    "connection (state_of (connect (backend_query_fails 1000) fresh_bound)) = Some ?c"
    "\<not> live (state_of (connect (backend_down 1000) fresh_bound))"
    by (simp_all add: method_defs input_defs)
  have q: "connection_query (backend_up 1000) ?c (healthCheckQuery fresh_bound) = Inr [''1'']"
    "connection_query (backend_query_fails 1000) ?c (healthCheckQuery fresh_bound)
       = Inl (Error ''ER_QUERY'')"
    "date_at_store (backend_up 1000) = 1000" "date_at_store (backend_query_fails 1000) = 1000"
    by (simp_all add: input_defs)
  have a: "result_of (healthCheck (backend_up 1000) fresh_bound) = Inr True
     \<and> cache (state_of (healthCheck (backend_up 1000) fresh_bound)) = (Some 1000, Some True)"
    using healthCheck_cache_written_after_query [OF u n(1)] l(1) q by (simp add: cache_def)
  have b: "result_of (healthCheck (backend_query_fails 1000) fresh_bound) = Inr False
     \<and> cache (state_of (healthCheck (backend_query_fails 1000) fresh_bound)) = (Some 1000, Some False)"
    using healthCheck_cache_written_after_query [OF u n(2)] l(2) q by (simp add: cache_def)
  have c: "result_of (healthCheck (backend_down 1000) fresh_bound) = Inr False
     \<and> cache (state_of (healthCheck (backend_down 1000) fresh_bound)) = cache fresh_bound"
    using healthCheck_cache_written_after_query [OF u n(3)] l(3) by (simp add: cache_def)
  from u n l a b c show ?thesis by simp
qed

text \<open>
  Claim C2 as stated fails on the path without a connection: a bound, fresh object
  probed at clock time 1000 against a database that refuses the connection returns
  \<open>false\<close> and both cache fields are still null, neither the time 1000 nor the result
  \<open>false\<close> is stored.
\<close>

theorem healthCheck_no_connection_leaves_cache:
  "cached_result (backend_down 1000) fresh_bound = None
 \<and> result_of (healthCheck (backend_down 1000) fresh_bound) = Inr False
 \<and> lastHealthCheck (state_of (healthCheck (backend_down 1000) fresh_bound)) = None
 \<and> lastHealthCheckResult (state_of (healthCheck (backend_down 1000) fresh_bound)) = None"
  by (simp add: method_defs input_defs)

text \<open>
  Claim C1, as the code has it by design, for an object with
  \<open>unhealthyWithoutConnection\<close> on.

  \<^item> If the cache holds the result \<open>true\<close> and its time \<open>t\<close> is at least the clock reading
    minus \<open>healthCheckInterval\<close> (equality included), the call returns \<open>true\<close>, makes no
    call to the outside and leaves the object unchanged.
  \<^item> So after a call that returned \<open>true\<close>, the cache holds a time \<open>t\<close> (the clock
    reading of that call's \<open>finally\<close> block when it ran the check), and a second call
    whose clock reading is at most \<open>t\<close> plus the interval returns \<open>true\<close> again without
    any call, whatever the database would answer by then.
  \<^item> If the cached time is older than the clock reading minus the interval, the cache
    is not used: \<open>connect\<close> runs; with a live handle afterwards the query is executed
    as the last call; without one the call returns \<open>false\<close> and executes no query.

  Nothing is said here about a cached result \<open>false\<close>.
\<close>

theorem healthCheck_cache_window:
  assumes u: "unhealthyWithoutConnection s"
  shows
  "(\<forall>t. lastHealthCheck s = Some t \<and> lastHealthCheckResult s = Some True
        \<and> t \<ge> date_at_check be - healthCheckInterval s
      \<longrightarrow> healthCheck be s = (Inr True, s, []))
 \<and> (result_of (healthCheck be s) = Inr True \<longrightarrow>
      (\<exists>t. lastHealthCheck (state_of (healthCheck be s)) = Some t
          \<and> (cached_result be s = None \<longrightarrow> t = date_at_store be)
          \<and> (t \<ge> date_at_check be2 - healthCheckInterval s \<longrightarrow>
               healthCheck be2 (state_of (healthCheck be s))
                 = (Inr True, state_of (healthCheck be s), []))))
 \<and> (\<forall>t. lastHealthCheck s = Some t \<and> t < date_at_check be - healthCheckInterval s \<longrightarrow>
        (\<forall>c. connection (state_of (connect be s)) = Some c \<and> isConnected c \<longrightarrow>
           calls_of (healthCheck be s)
             = calls_of (connect be s) @ [ConnectionQuery (handle c) (healthCheckQuery s)])
      \<and> (\<not> live (state_of (connect be s)) \<longrightarrow>
           result_of (healthCheck be s) = Inr False
         \<and> filter is_query (calls_of (healthCheck be s)) = []))"
proof (intro conjI allI impI)
  fix t
  assume "lastHealthCheck s = Some t \<and> lastHealthCheckResult s = Some True
        \<and> t \<ge> date_at_check be - healthCheckInterval s"
  with u show "healthCheck be s = (Inr True, s, [])"
    by (simp add: healthCheck_cached cached_result_fresh)
next
  let ?s1 = "state_of (healthCheck be s)"
  assume r: "result_of (healthCheck be s) = Inr True"
  from healthCheck_true_cached [OF u r] obtain t where
    res: "lastHealthCheckResult ?s1 = Some True" and t: "lastHealthCheck ?s1 = Some t"
    and st: "cached_result be s = None \<longrightarrow> t = date_at_store be" by auto
  have u1: "unhealthyWithoutConnection ?s1" using u by (simp add: healthCheck_keeps)
  have "t \<ge> date_at_check be2 - healthCheckInterval s \<longrightarrow> healthCheck be2 ?s1 = (Inr True, ?s1, [])"
  proof
    assume "t \<ge> date_at_check be2 - healthCheckInterval s"
    then have "cached_result be2 ?s1 = Some True"
      using res t by (simp add: cached_result_fresh healthCheck_keeps)
    with u1 show "healthCheck be2 ?s1 = (Inr True, ?s1, [])" by (simp add: healthCheck_cached)
  qed
  with t st show "\<exists>t. lastHealthCheck ?s1 = Some t
          \<and> (cached_result be s = None \<longrightarrow> t = date_at_store be)
          \<and> (t \<ge> date_at_check be2 - healthCheckInterval s \<longrightarrow>
               healthCheck be2 ?s1 = (Inr True, ?s1, []))" by auto
next
  fix t c
  assume "lastHealthCheck s = Some t \<and> t < date_at_check be - healthCheckInterval s"
    and "connection (state_of (connect be s)) = Some c \<and> isConnected c"
  with u show "calls_of (healthCheck be s)
      = calls_of (connect be s) @ [ConnectionQuery (handle c) (healthCheckQuery s)]"
    by (simp add: healthCheck_performs cached_result_stale perform_check_query)
next
  fix t
  assume a: "lastHealthCheck s = Some t \<and> t < date_at_check be - healthCheckInterval s"
    and n: "\<not> live (state_of (connect be s))"
  from a have "cached_result be s = None" by (simp add: cached_result_stale)
  with u n have p: "healthCheck be s = (Inr False, state_of (connect be s), calls_of (connect be s))"
    by (simp add: healthCheck_performs perform_check_no_connection)
  show "result_of (healthCheck be s) = Inr False" by (simp add: p)
  show "filter is_query (calls_of (healthCheck be s)) = []" by (simp add: p connect_no_query)
qed

text \<open>
  Four runs. An object checked healthy at 1000 and probed at 16000, the boundary: the
  cache answers. A fresh bound object probed at 1000 with the database up and again at
  16000 with the database down: the second answer is the cached \<open>true\<close>. The checked
  object probed at 16001: the query runs. The object checked at 1000, then closed, and
  probed at 20000 with the database down: \<open>false\<close>, and no query.
\<close>

theorem healthCheck_cache_window_witness:
  "unhealthyWithoutConnection checked
 \<and> lastHealthCheck checked = Some 1000 \<and> lastHealthCheckResult checked = Some True
 \<and> 1000 \<ge> date_at_check (backend_up 16000) - healthCheckInterval checked
 \<and> healthCheck (backend_up 16000) checked = (Inr True, checked, [])
 \<and> result_of (healthCheck (backend_up 1000) fresh_bound) = Inr True
 \<and> healthCheck (backend_down 16000) (state_of (healthCheck (backend_up 1000) fresh_bound))
     = (Inr True, state_of (healthCheck (backend_up 1000) fresh_bound), [])
 \<and> 1000 < date_at_check (backend_up 16001) - healthCheckInterval checked
 \<and> calls_of (healthCheck (backend_up 16001) checked) = [ConnectionQuery 1 ''SELECT 1'']
 \<and> \<not> live (state_of (connect (backend_down 20000) closed_after_check))
 \<and> result_of (healthCheck (backend_down 20000) closed_after_check) = Inr False
 \<and> filter is_query (calls_of (healthCheck (backend_down 20000) closed_after_check)) = []"
proof -
  have u1: "unhealthyWithoutConnection checked" by (simp add: input_defs)
  have u2: "unhealthyWithoutConnection fresh_bound" by (simp add: input_defs)
  have u3: "unhealthyWithoutConnection closed_after_check" by (simp add: input_defs)
  have t1: "lastHealthCheck checked = Some 1000" "lastHealthCheckResult checked = Some True"
    "healthCheckInterval checked = 15000" "healthCheckInterval fresh_bound = 15000"
    "lastHealthCheck closed_after_check = Some 1000" "healthCheckInterval closed_after_check = 15000"
    "healthCheckQuery checked = ''SELECT 1''"
    by (simp_all add: input_defs)
  have d: "date_at_check (backend_up 16000) = 16000" "date_at_check (backend_down 16000) = 16000"
    "date_at_check (backend_up 16001) = 16001" "date_at_store (backend_up 1000) = 1000"
    "date_at_check (backend_down 20000) = 20000"
    by (simp_all add: input_defs)
  have a: "healthCheck (backend_up 16000) checked = (Inr True, checked, [])"
    using healthCheck_cache_window [OF u1, of "backend_up 16000"] t1 d by simp
  have r: "result_of (healthCheck (backend_up 1000) fresh_bound) = Inr True"
    by (simp add: method_defs input_defs)
  have n: "cached_result (backend_up 1000) fresh_bound = None"
    by (simp add: cached_result_def input_defs)
  have b: "healthCheck (backend_down 16000) (state_of (healthCheck (backend_up 1000) fresh_bound))
     = (Inr True, state_of (healthCheck (backend_up 1000) fresh_bound), [])"
    using healthCheck_cache_window [OF u2, of "backend_up 1000" "backend_down 16000"] r n t1 d
    by auto
  have l: "connection (state_of (connect (backend_up 16001) checked))
      = Some \<lparr> handle = 1, isConnected = True \<rparr>"
    "calls_of (connect (backend_up 16001) checked) = []"
    by (simp_all add: method_defs input_defs)
  have c: "calls_of (healthCheck (backend_up 16001) checked) = [ConnectionQuery 1 ''SELECT 1'']"
    using healthCheck_cache_window [OF u1, of "backend_up 16001"] t1 d l by simp
  have nl: "\<not> live (state_of (connect (backend_down 20000) closed_after_check))"
    by (simp add: method_defs input_defs)
  have e: "result_of (healthCheck (backend_down 20000) closed_after_check) = Inr False
     \<and> filter is_query (calls_of (healthCheck (backend_down 20000) closed_after_check)) = []"
    using healthCheck_cache_window [OF u3, of "backend_down 20000"] t1 d nl by simp
  from u1 t1 d a r b c nl e show ?thesis by simp
qed

text \<open>
  Claim C1 as stated fails. A bound, fresh object is probed at clock time 1000 while
  the database refuses connections: the call completes with \<open>false\<close>. It is probed
  again at 2000, well within the interval of 15000, when the database is back: the
  second call does not return the first result; it connects, executes the query and
  returns \<open>true\<close>.
\<close>

theorem healthCheck_second_call_differs:
  "unhealthyWithoutConnection fresh_bound \<and> healthCheckInterval fresh_bound = 15000
 \<and> result_of (healthCheck (backend_down 1000) fresh_bound) = Inr False
 \<and> result_of (healthCheck (backend_up 2000) (state_of (healthCheck (backend_down 1000) fresh_bound)))
     = Inr True
 \<and> calls_of (healthCheck (backend_up 2000) (state_of (healthCheck (backend_down 1000) fresh_bound)))
     = [AppInfo ''ORM:'' ''Attempting Connection'', CreateConnection NoArgument,
        AppInfo ''ORM:'' ''Connecting'', ConnectionQuery 1 ''SELECT 1'']"
  by (simp add: method_defs input_defs)

text \<open>
  For the record, what line 132 makes of a cached \<open>false\<close>: its second operand tests
  the stored boolean itself, so a stored \<open>false\<close> is never served. A bound, fresh
  object whose query fails at 1000 stores \<open>(1000, false)\<close>; probed at 2000 it runs
  the query again.
\<close>

lemma healthCheck_cached_false_runs_again:
  "cache (state_of (healthCheck (backend_query_fails 1000) fresh_bound)) = (Some 1000, Some False)
 \<and> healthCheck (backend_up 2000) (state_of (healthCheck (backend_query_fails 1000) fresh_bound))
     = (Inr True,
        connected\<lparr> lastHealthCheck := Some 2000, lastHealthCheckResult := Some True \<rparr>,
        [ConnectionQuery 1 ''SELECT 1''])"
  by (simp add: method_defs input_defs cache_def)

section \<open>The cache invariant\<close>

lemma setConnectionOptions_cache: "cache (snd (setConnectionOptions options s)) = cache s"
  by (simp add: setConnectionOptions_def cache_def Let_def)

lemma getConnectionOptions_cache: "cache (state_of (getConnectionOptions be s)) = cache s"
  by (simp add: getConnectionOptions_def setConnectionOptions_cache split: option.split sum.split)

lemma connect_cache: "cache (state_of (connect be s)) = cache s"
  by (simp add: cache_def connect_keeps)

lemma close_cache: "cache (state_of (close be s)) = cache s"
  by (subst close_state) (simp add: cache_def)

lemma getConnection_state:
  "state_of (getConnection be s) = (if \<not> live s then state_of (connect be s) else s)"
proof (cases "live s")
  case True
  then show ?thesis by (simp add: getConnection_def live_def split: option.split)
next
  case False
  obtain b s1 ev1 where c: "connect be s = (Inr b, s1, ev1)"
    using connect_returns [of be s] by (cases "connect be s") auto
  with False show ?thesis by (simp add: getConnection_def split: option.split)
qed

lemma getConnection_cache: "cache (state_of (getConnection be s)) = cache s"
  by (simp add: getConnection_state connect_cache)

lemma paired_cache: "cache s' = cache s \<Longrightarrow> paired s \<Longrightarrow> paired s'"
  by (simp add: paired_def cache_def)

lemma reachable_paired: "reachable s \<Longrightarrow> paired s"
proof (induction rule: reachable.induct)
  case (constructed a opts)
  then show ?case by (simp add: paired_def constructor_cache)
next
  case (after_connect s be)
  then show ?case using paired_cache [OF connect_cache] by blast
next
  case (after_close s be)
  then show ?case using paired_cache [OF close_cache] by blast
next
  case (after_healthCheck s be)
  from healthCheck_cache [of be s] show ?case
  proof
    assume "cache (state_of (healthCheck be s)) = cache s"
    with after_healthCheck.IH show ?thesis by (rule paired_cache [rotated])
  next
    assume "\<exists>b. result_of (healthCheck be s) = Inr b
          \<and> cache (state_of (healthCheck be s)) = (Some (date_at_store be), Some b)"
    then show ?thesis by (auto simp: paired_def cache_def)
  qed
next
  case (after_getConnection s be)
  then show ?case using paired_cache [OF getConnection_cache] by blast
next
  case (after_setConnectionOptions s options)
  then show ?case using paired_cache [OF setConnectionOptions_cache] by blast
next
  case (after_getConnectionOptions s be)
  then show ?case using paired_cache [OF getConnectionOptions_cache] by blast
qed

text \<open>
  Claim C9. In every object that the constructor and the methods can produce, the
  time of the last health check is null exactly when its result is null. \<open>connect\<close>,
  \<open>close\<close> and \<open>getConnection\<close> leave both fields as they are. \<open>healthCheck\<close> leaves
  both as they are or writes both: the clock reading of its \<open>finally\<close> block and the
  boolean that this very call returns.
\<close>

theorem cache_fields_paired:
  assumes "reachable s"
  shows "((lastHealthCheck s = None) = (lastHealthCheckResult s = None))
       \<and> cache (state_of (connect be s)) = cache s
       \<and> cache (state_of (close be s)) = cache s
       \<and> cache (state_of (getConnection be s)) = cache s
       \<and> (cache (state_of (healthCheck be s)) = cache s
          \<or> (\<exists>b. result_of (healthCheck be s) = Inr b
                 \<and> cache (state_of (healthCheck be s)) = (Some (date_at_store be), Some b)))"
  using reachable_paired [OF assms] healthCheck_cache [of be s]
  by (simp add: paired_def connect_cache close_cache getConnection_cache)

text \<open>The object reached by one healthy check at 1000, then met by a second call at 2000.\<close>

theorem cache_fields_paired_witness:
  "reachable (state_of (healthCheck (backend_up 1000) fresh_bound))
 \<and> cache (state_of (healthCheck (backend_up 1000) fresh_bound)) = (Some 1000, Some True)
 \<and> cache (state_of (close (backend_up 2000) (state_of (healthCheck (backend_up 1000) fresh_bound))))
     = (Some 1000, Some True)
 \<and> cache (state_of (healthCheck (backend_query_fails 20000)
                       (state_of (healthCheck (backend_up 1000) fresh_bound))))
     = (Some 20000, Some False)"
proof -
  let ?s = "state_of (healthCheck (backend_up 1000) fresh_bound)"
  have "reachable fresh_bound" unfolding fresh_bound_def by (rule reachable.constructed)
  then have r: "reachable ?s" by (rule reachable.after_healthCheck)
  have t: "cache ?s = (Some 1000, Some True)"
    by (simp add: method_defs input_defs cache_def)
  have f: "cache (state_of (healthCheck (backend_query_fails 20000) ?s)) \<noteq> cache ?s"
    "date_at_store (backend_query_fails 20000) = 20000"
    "result_of (healthCheck (backend_query_fails 20000) ?s) = Inr False"
    by (simp_all add: method_defs input_defs cache_def)
  from cache_fields_paired [OF r, of "backend_up 2000"] t
  have a: "cache (state_of (close (backend_up 2000) ?s)) = (Some 1000, Some True)" by simp
  from cache_fields_paired [OF r, of "backend_query_fails 20000"] f
  have b: "cache (state_of (healthCheck (backend_query_fails 20000) ?s)) = (Some 20000, Some False)"
    by auto
  from r t a b show ?thesis by simp
qed

section \<open>buildConnectionOptions\<close>

lemma push_slaves_append: "push_slaves d xs acc = acc @ map (\<lambda>h. with_host h d) xs"
  by (induction xs arbitrary: acc) simp_all

lemma primary_build:
  "primary (buildConnectionOptions cfg s)
     = with_host (build_master cfg (config s)) (build_details cfg (config s))"
  by (simp add: buildConnectionOptions_def Let_def)

lemma replicas_build:
  "replicas (buildConnectionOptions cfg s) =
     map (\<lambda>h. with_host h (build_details cfg (config s))) (build_slaves cfg (config s))"
  by (simp add: buildConnectionOptions_def Let_def push_slaves_append)

lemma type_build:
  "options_type (buildConnectionOptions cfg s) = type (build_output cfg (config s))"
  by (simp add: buildConnectionOptions_def Let_def)

lemma is_replication_build:
  "is_replication (buildConnectionOptions cfg s) = (build_slaves cfg (config s) \<noteq> [])"
  by (simp add: buildConnectionOptions_def Let_def)

lemma with_host_fields:
  "host (with_host h d) = h"
  "credentials (with_host h d) = (port d, username d, password d, database d)"
  "port (with_host h d) = port d"
  "username (with_host h d) = username d"
  "password (with_host h d) = password d"
  "database (with_host h d) = database d"
  by (simp_all add: with_host_def credentials_def)

text \<open>The three \<open>||\<close> chains with a fallback, case by case.\<close>

lemma build_slaves_cases:
  "build_slaves cfg stored =
     (if truthy_slaves (opt_chain cfg cfg_slaves)
      then (case opt_chain cfg cfg_slaves of
              Some (SlaveString x) \<Rightarrow> [x] | Some (SlaveArray xs) \<Rightarrow> xs | None \<Rightarrow> [])
      else if truthy_slaves (opt_chain stored cfg_slaves)
      then (case opt_chain stored cfg_slaves of
              Some (SlaveString x) \<Rightarrow> [x] | Some (SlaveArray xs) \<Rightarrow> xs | None \<Rightarrow> [])
      else [])"
  by (simp add: build_slaves_def or_slaves_def truthy_slaves_def
      split: option.split slaves_value.split)

lemma build_master_cases:
  "build_master cfg stored =
     (if truthy_string (map_option cfg_master cfg)
      then (case cfg of Some c \<Rightarrow> cfg_master c | None \<Rightarrow> ''127.0.0.1'')
      else if truthy_string (map_option cfg_master stored)
      then (case stored of Some c \<Rightarrow> cfg_master c | None \<Rightarrow> ''127.0.0.1'')
      else ''127.0.0.1'')"
  by (simp add: build_master_def or_string_def truthy_string_def split: option.split)

lemma build_port_cases:
  "port (build_details cfg stored) =
     (if truthy_number (opt_chain cfg cfg_port)
      then (case opt_chain cfg cfg_port of Some p \<Rightarrow> p | None \<Rightarrow> 3306)
      else if truthy_number (opt_chain stored cfg_port)
      then (case opt_chain stored cfg_port of Some p \<Rightarrow> p | None \<Rightarrow> 3306)
      else 3306)"
  by (simp add: build_details_def or_number_def truthy_number_def split: option.split)

lemma build_type_cases:
  "type (build_output cfg stored) =
     (case cfg of Some c \<Rightarrow> cfg_type c
      | None \<Rightarrow> (case stored of Some c \<Rightarrow> cfg_type c | None \<Rightarrow> mysql))"
  by (simp add: build_output_def)

lemma build_strings:
  "username (build_details cfg stored)
     = or_string (opt_chain cfg cfg_username) (opt_chain stored cfg_username)"
  "password (build_details cfg stored)
     = or_string (opt_chain cfg cfg_password) (opt_chain stored cfg_password)"
  "database (build_details cfg stored)
     = or_string (opt_chain cfg cfg_database) (opt_chain stored cfg_database)"
  by (simp_all add: build_details_def)

text \<open>
  Claim C4, as the code has it. \<open>build_slaves\<close> is the replica list after
  normalisation, \<open>build_master\<close> the master address and \<open>build_details\<close> the shared
  fields, each after the merge with the stored configuration.

  \<^item> With an empty replica list the result is the single-endpoint shape, its host the
    master address, the shared fields inlined.
  \<^item> With \<open>N \<ge> 1\<close> replicas the result is the replication shape: a master endpoint with
    the master address, and \<open>N\<close> slave endpoints whose hosts are the replicas in input
    order, each with the port, username, password and database of the master endpoint.
  \<^item> A non-empty master of the per-call configuration is the master address.
  \<^item> A per-call \<open>slaves\<close> that is a single non-empty string becomes the one-element
    list of it; an array is taken as it is; \<open>slaves\<close> absent from both configurations
    gives the empty list.
\<close>

theorem buildConnectionOptions_topology:
  "(build_slaves cfg (config s) = [] \<longrightarrow>
      buildConnectionOptions cfg s =
        SingleServer (build_output cfg (config s))
          (with_host (build_master cfg (config s)) (build_details cfg (config s))))
 \<and> (build_slaves cfg (config s) \<noteq> [] \<longrightarrow>
      is_replication (buildConnectionOptions cfg s)
    \<and> host (primary (buildConnectionOptions cfg s)) = build_master cfg (config s)
    \<and> length (replicas (buildConnectionOptions cfg s)) = length (build_slaves cfg (config s))
    \<and> map host (replicas (buildConnectionOptions cfg s)) = build_slaves cfg (config s)
    \<and> (\<forall>e \<in> set (replicas (buildConnectionOptions cfg s)).
          credentials e = credentials (primary (buildConnectionOptions cfg s))))
 \<and> (\<forall>c. cfg = Some c \<and> cfg_master c \<noteq> [] \<longrightarrow>
        host (primary (buildConnectionOptions cfg s)) = cfg_master c)
 \<and> (\<forall>x. opt_chain cfg cfg_slaves = Some (SlaveString x) \<and> x \<noteq> [] \<longrightarrow>
        build_slaves cfg (config s) = [x])
 \<and> (\<forall>xs. opt_chain cfg cfg_slaves = Some (SlaveArray xs) \<longrightarrow> build_slaves cfg (config s) = xs)
 \<and> (opt_chain cfg cfg_slaves = None \<and> opt_chain (config s) cfg_slaves = None \<longrightarrow>
        build_slaves cfg (config s) = [])"
proof -
  have single: "build_slaves cfg (config s) = [] \<longrightarrow>
      buildConnectionOptions cfg s =
        SingleServer (build_output cfg (config s))
          (with_host (build_master cfg (config s)) (build_details cfg (config s)))"
    by (simp add: buildConnectionOptions_def Let_def)
  have rep: "build_slaves cfg (config s) \<noteq> [] \<longrightarrow> is_replication (buildConnectionOptions cfg s)"
    by (simp add: is_replication_build)
  have hm: "host (primary (buildConnectionOptions cfg s)) = build_master cfg (config s)"
    by (simp add: primary_build with_host_fields)
  have len: "length (replicas (buildConnectionOptions cfg s)) = length (build_slaves cfg (config s))"
    by (simp add: replicas_build)
  have hosts: "map host (replicas (buildConnectionOptions cfg s)) = build_slaves cfg (config s)"
    by (simp add: replicas_build with_host_fields comp_def)
  have creds: "\<forall>e \<in> set (replicas (buildConnectionOptions cfg s)).
          credentials e = credentials (primary (buildConnectionOptions cfg s))"
    by (auto simp: replicas_build primary_build with_host_fields)
  have master: "\<forall>c. cfg = Some c \<and> cfg_master c \<noteq> [] \<longrightarrow>
      host (primary (buildConnectionOptions cfg s)) = cfg_master c"
    by (simp add: primary_build with_host_fields build_master_cases truthy_string_def)
  have one: "\<forall>x. opt_chain cfg cfg_slaves = Some (SlaveString x) \<and> x \<noteq> [] \<longrightarrow>
      build_slaves cfg (config s) = [x]"
    by (simp add: build_slaves_cases truthy_slaves_def)
  have many: "\<forall>xs. opt_chain cfg cfg_slaves = Some (SlaveArray xs) \<longrightarrow>
      build_slaves cfg (config s) = xs"
    by (simp add: build_slaves_cases truthy_slaves_def)
  have absent: "opt_chain cfg cfg_slaves = None \<and> opt_chain (config s) cfg_slaves = None \<longrightarrow>
      build_slaves cfg (config s) = []"
    by (simp add: build_slaves_cases truthy_slaves_def)
  from single rep hm len hosts creds master one many absent show ?thesis by blast
qed

text \<open>
  The replication scenario (master \<open>db1\<close>, replicas \<open>db2\<close> and \<open>db3\<close>, port 3306, user
  \<open>u\<close>, password \<open>p\<close>, database \<open>app\<close>), and the same configuration without replicas.
\<close>

theorem buildConnectionOptions_topology_witness:
  "build_slaves (Some app_config) (config fresh) = [''db2'', ''db3'']
 \<and> is_replication (buildConnectionOptions (Some app_config) fresh)
 \<and> host (primary (buildConnectionOptions (Some app_config) fresh)) = ''db1''
 \<and> map host (replicas (buildConnectionOptions (Some app_config) fresh)) = [''db2'', ''db3'']
 \<and> length (replicas (buildConnectionOptions (Some app_config) fresh)) = 2
 \<and> list_all (\<lambda>e. credentials e = (3306, Some ''u'', Some ''p'', Some ''app''))
      (replicas (buildConnectionOptions (Some app_config) fresh))
 \<and> build_slaves (Some single_config) (config fresh) = []
 \<and> buildConnectionOptions (Some single_config) fresh
     = SingleServer (build_output (Some single_config) None)
         \<lparr> port = 3306, username = Some ''u'', password = Some ''p'', database = Some ''app'',
           host = ''db1'' \<rparr>"
proof -
  let ?R = "buildConnectionOptions (Some app_config) fresh"
  have s: "build_slaves (Some app_config) (config fresh) = [''db2'', ''db3'']"
    "build_slaves (Some single_config) (config fresh) = []"
    by (simp_all add: build_defs config_defs)
  have m: "build_master (Some app_config) (config fresh) = ''db1''"
    "config fresh = None"
    "with_host (build_master (Some single_config) None) (build_details (Some single_config) None)
      = \<lparr> port = 3306, username = Some ''u'', password = Some ''p'', database = Some ''app'',
          host = ''db1'' \<rparr>"
    by (simp_all add: build_defs config_defs)
  have p: "credentials (primary ?R) = (3306, Some ''u'', Some ''p'', Some ''app'')"
    by (simp add: build_defs config_defs)
  note app = buildConnectionOptions_topology [of "Some app_config" fresh]
  from app s(1) have a1: "is_replication ?R" by simp
  from app s(1) m(1) have a2: "host (primary ?R) = ''db1''" by simp
  from app s(1) have a3: "map host (replicas ?R) = [''db2'', ''db3'']" by simp
  from app s(1) have a4: "length (replicas ?R) = 2" by simp
  from app s(1) have b: "\<forall>e \<in> set (replicas ?R). credentials e = credentials (primary ?R)"
    by simp
  with p have c: "list_all (\<lambda>e. credentials e = (3306, Some ''u'', Some ''p'', Some ''app''))
      (replicas ?R)"
    by (simp add: list_all_iff)
  from buildConnectionOptions_topology [of "Some single_config" fresh] s(2) m(2,3)
  have d: "buildConnectionOptions (Some single_config) fresh
     = SingleServer (build_output (Some single_config) None)
         \<lparr> port = 3306, username = Some ''u'', password = Some ''p'', database = Some ''app'',
           host = ''db1'' \<rparr>"
    by simp
  from s a1 a2 a3 a4 c d show ?thesis by simp
qed

text \<open>
  Claim C4 as stated fails for the single string \<open>""\<close>: \<open>slaves: ""\<close> is falsy, so it
  is normalised to the empty list, not to the one-element list of it, and the result
  has the single-endpoint shape.
\<close>

theorem buildConnectionOptions_empty_slave_string:
  "cfg_slaves empty_slave_config = Some (SlaveString '''')
 \<and> build_slaves (Some empty_slave_config) (config fresh) = []
 \<and> \<not> is_replication (buildConnectionOptions (Some empty_slave_config) fresh)
 \<and> replicas (buildConnectionOptions (Some empty_slave_config) fresh) = []"
  by (simp add: build_defs config_defs)

text \<open>
  Claim C5, as the code has it: the precedence is decided by truthiness, not by
  presence. For port, master and slaves, a per-call value that is truthy (a port other
  than 0, a non-empty string, any array) wins; when the per-call value is absent or
  falsy, a truthy stored value wins; when neither is truthy the fallback applies:
  port 3306, host \<open>127.0.0.1\<close>, no replicas. Username, password and database have no
  fallback: a non-empty per-call value wins, otherwise the stored value is taken as it
  is. The type is the per-call one when a per-call configuration is given, else the
  stored one, else \<open>mysql\<close>.
\<close>

theorem buildConnectionOptions_precedence:
  "options_type (buildConnectionOptions cfg s) =
     (case cfg of Some c \<Rightarrow> cfg_type c
      | None \<Rightarrow> (case config s of Some c \<Rightarrow> cfg_type c | None \<Rightarrow> mysql))
 \<and> (\<forall>p. opt_chain cfg cfg_port = Some p \<and> p \<noteq> 0 \<longrightarrow>
        port (primary (buildConnectionOptions cfg s)) = p)
 \<and> (\<forall>q. \<not> truthy_number (opt_chain cfg cfg_port) \<and> opt_chain (config s) cfg_port = Some q \<and> q \<noteq> 0
        \<longrightarrow> port (primary (buildConnectionOptions cfg s)) = q)
 \<and> (\<not> truthy_number (opt_chain cfg cfg_port) \<and> \<not> truthy_number (opt_chain (config s) cfg_port)
        \<longrightarrow> port (primary (buildConnectionOptions cfg s)) = 3306)
 \<and> (\<forall>c. cfg = Some c \<and> cfg_master c \<noteq> [] \<longrightarrow>
        host (primary (buildConnectionOptions cfg s)) = cfg_master c)
 \<and> (\<forall>c. \<not> truthy_string (map_option cfg_master cfg) \<and> config s = Some c \<and> cfg_master c \<noteq> []
        \<longrightarrow> host (primary (buildConnectionOptions cfg s)) = cfg_master c)
 \<and> (\<not> truthy_string (map_option cfg_master cfg) \<and> \<not> truthy_string (map_option cfg_master (config s))
        \<longrightarrow> host (primary (buildConnectionOptions cfg s)) = ''127.0.0.1'')
 \<and> username (primary (buildConnectionOptions cfg s)) =
      (if truthy_string (opt_chain cfg cfg_username) then opt_chain cfg cfg_username
       else opt_chain (config s) cfg_username)
 \<and> password (primary (buildConnectionOptions cfg s)) =
      (if truthy_string (opt_chain cfg cfg_password) then opt_chain cfg cfg_password
       else opt_chain (config s) cfg_password)
 \<and> database (primary (buildConnectionOptions cfg s)) =
      (if truthy_string (opt_chain cfg cfg_database) then opt_chain cfg cfg_database
       else opt_chain (config s) cfg_database)
 \<and> (\<forall>v. opt_chain cfg cfg_slaves = Some v \<and> truthy_slaves (Some v) \<longrightarrow>
        map host (replicas (buildConnectionOptions cfg s))
          = (case v of SlaveString x \<Rightarrow> [x] | SlaveArray xs \<Rightarrow> xs))
 \<and> (\<forall>v. \<not> truthy_slaves (opt_chain cfg cfg_slaves) \<and> opt_chain (config s) cfg_slaves = Some v
          \<and> truthy_slaves (Some v) \<longrightarrow>
        map host (replicas (buildConnectionOptions cfg s))
          = (case v of SlaveString x \<Rightarrow> [x] | SlaveArray xs \<Rightarrow> xs))
 \<and> (\<not> truthy_slaves (opt_chain cfg cfg_slaves) \<and> \<not> truthy_slaves (opt_chain (config s) cfg_slaves)
        \<longrightarrow> replicas (buildConnectionOptions cfg s) = [])"
proof -
  have hosts: "map host (replicas (buildConnectionOptions cfg s)) = build_slaves cfg (config s)"
    by (simp add: replicas_build with_host_fields comp_def)
  have ty: "options_type (buildConnectionOptions cfg s) =
     (case cfg of Some c \<Rightarrow> cfg_type c
      | None \<Rightarrow> (case config s of Some c \<Rightarrow> cfg_type c | None \<Rightarrow> mysql))"
    by (simp add: type_build build_type_cases)
  have p1: "\<forall>p. opt_chain cfg cfg_port = Some p \<and> p \<noteq> 0 \<longrightarrow>
        port (primary (buildConnectionOptions cfg s)) = p"
    by (simp add: primary_build with_host_fields build_port_cases truthy_number_def)
  have p2: "\<forall>q. \<not> truthy_number (opt_chain cfg cfg_port) \<and> opt_chain (config s) cfg_port = Some q
        \<and> q \<noteq> 0 \<longrightarrow> port (primary (buildConnectionOptions cfg s)) = q"
    by (simp add: primary_build with_host_fields build_port_cases) (simp add: truthy_number_def)
  have p3: "\<not> truthy_number (opt_chain cfg cfg_port) \<and> \<not> truthy_number (opt_chain (config s) cfg_port)
        \<longrightarrow> port (primary (buildConnectionOptions cfg s)) = 3306"
    by (simp add: primary_build with_host_fields build_port_cases)
  have m1: "\<forall>c. cfg = Some c \<and> cfg_master c \<noteq> [] \<longrightarrow>
        host (primary (buildConnectionOptions cfg s)) = cfg_master c"
    by (simp add: primary_build with_host_fields build_master_cases truthy_string_def)
  have m2: "\<forall>c. \<not> truthy_string (map_option cfg_master cfg) \<and> config s = Some c \<and> cfg_master c \<noteq> []
        \<longrightarrow> host (primary (buildConnectionOptions cfg s)) = cfg_master c"
    by (simp add: primary_build with_host_fields build_master_cases) (simp add: truthy_string_def)
  have m3: "\<not> truthy_string (map_option cfg_master cfg)
        \<and> \<not> truthy_string (map_option cfg_master (config s))
        \<longrightarrow> host (primary (buildConnectionOptions cfg s)) = ''127.0.0.1''"
    by (simp add: primary_build with_host_fields build_master_cases)
  have u: "username (primary (buildConnectionOptions cfg s)) =
      (if truthy_string (opt_chain cfg cfg_username) then opt_chain cfg cfg_username
       else opt_chain (config s) cfg_username)"
    by (simp add: primary_build with_host_fields build_strings or_string_def)
  have pw: "password (primary (buildConnectionOptions cfg s)) =
      (if truthy_string (opt_chain cfg cfg_password) then opt_chain cfg cfg_password
       else opt_chain (config s) cfg_password)"
    by (simp add: primary_build with_host_fields build_strings or_string_def)
  have d: "database (primary (buildConnectionOptions cfg s)) =
      (if truthy_string (opt_chain cfg cfg_database) then opt_chain cfg cfg_database
       else opt_chain (config s) cfg_database)"
    by (simp add: primary_build with_host_fields build_strings or_string_def)
  have s1: "\<forall>v. opt_chain cfg cfg_slaves = Some v \<and> truthy_slaves (Some v) \<longrightarrow>
        map host (replicas (buildConnectionOptions cfg s))
          = (case v of SlaveString x \<Rightarrow> [x] | SlaveArray xs \<Rightarrow> xs)"
    by (simp add: hosts build_slaves_cases)
  have s2: "\<forall>v. \<not> truthy_slaves (opt_chain cfg cfg_slaves) \<and> opt_chain (config s) cfg_slaves = Some v
          \<and> truthy_slaves (Some v) \<longrightarrow>
        map host (replicas (buildConnectionOptions cfg s))
          = (case v of SlaveString x \<Rightarrow> [x] | SlaveArray xs \<Rightarrow> xs)"
    by (simp add: hosts build_slaves_cases)
  have s3: "\<not> truthy_slaves (opt_chain cfg cfg_slaves)
        \<and> \<not> truthy_slaves (opt_chain (config s) cfg_slaves)
        \<longrightarrow> replicas (buildConnectionOptions cfg s) = []"
    by (simp add: replicas_build build_slaves_cases)
  from ty p1 p2 p3 m1 m2 m3 u pw d s1 s2 s3 show ?thesis by blast
qed

text \<open>
  A per-call configuration without a port, with an empty master and an empty
  password, over a stored configuration (port 5432, master \<open>pg1\<close>, password
  \<open>secret\<close>): the stored values show through, the per-call type and username win.
  And no configuration at all: the fallbacks.
\<close>

theorem buildConnectionOptions_precedence_witness:
  "options_type (buildConnectionOptions (Some partial_config) with_stored) = mysql
 \<and> port (primary (buildConnectionOptions (Some partial_config) with_stored)) = 5432
 \<and> host (primary (buildConnectionOptions (Some partial_config) with_stored)) = ''pg1''
 \<and> username (primary (buildConnectionOptions (Some partial_config) with_stored)) = Some ''u''
 \<and> password (primary (buildConnectionOptions (Some partial_config) with_stored)) = Some ''secret''
 \<and> database (primary (buildConnectionOptions (Some partial_config) with_stored)) = Some ''main''
 \<and> replicas (buildConnectionOptions (Some partial_config) with_stored) = []
 \<and> options_type (buildConnectionOptions None fresh) = mysql
 \<and> port (primary (buildConnectionOptions None fresh)) = 3306
 \<and> host (primary (buildConnectionOptions None fresh)) = ''127.0.0.1''"
proof -
  have h: "config with_stored = Some stored_config" "config fresh = None"
    "cfg_port stored_config = Some 5432" "cfg_master stored_config = ''pg1''"
    "cfg_password stored_config = Some ''secret''" "cfg_database stored_config = Some ''main''"
    "cfg_slaves stored_config = None"
    "cfg_type partial_config = mysql" "cfg_port partial_config = None"
    "cfg_master partial_config = []"
    "cfg_username partial_config = Some ''u''" "cfg_password partial_config = Some []"
    "cfg_database partial_config = None" "cfg_slaves partial_config = None"
    by (simp_all add: config_defs)
  from buildConnectionOptions_precedence [of "Some partial_config" with_stored] h
  have a: "options_type (buildConnectionOptions (Some partial_config) with_stored) = mysql
 \<and> port (primary (buildConnectionOptions (Some partial_config) with_stored)) = 5432
 \<and> host (primary (buildConnectionOptions (Some partial_config) with_stored)) = ''pg1''
 \<and> username (primary (buildConnectionOptions (Some partial_config) with_stored)) = Some ''u''
 \<and> password (primary (buildConnectionOptions (Some partial_config) with_stored)) = Some ''secret''
 \<and> database (primary (buildConnectionOptions (Some partial_config) with_stored)) = Some ''main''
 \<and> replicas (buildConnectionOptions (Some partial_config) with_stored) = []"
    by (simp add: opt_chain_def truthy_number_def truthy_string_def truthy_slaves_def)
  from buildConnectionOptions_precedence [of None fresh] h
  have b: "options_type (buildConnectionOptions None fresh) = mysql
 \<and> port (primary (buildConnectionOptions None fresh)) = 3306
 \<and> host (primary (buildConnectionOptions None fresh)) = ''127.0.0.1''"
    by (simp add: opt_chain_def truthy_number_def truthy_string_def truthy_slaves_def)
  from a b show ?thesis by simp
qed

text \<open>
  Claim C5 as stated fails for a falsy value: the per-call configuration sets
  \<open>port: 0\<close>, the stored one has port 5432, and the result has port 5432; the value
  set per call does not override the stored one.
\<close>

theorem buildConnectionOptions_zero_port_not_kept:
  "cfg_port zero_port_config = Some 0
 \<and> opt_chain (config with_stored) cfg_port = Some 5432
 \<and> port (primary (buildConnectionOptions (Some zero_port_config) with_stored)) = 5432"
  by (simp add: build_defs config_defs)


end
